theory Spec2Isabelle
  imports Complex_Main "HOL-Library.AList"
begin

section \<open>Numbers and vectors\<close>

text \<open>
  The engine computes with Python floats and three-component numpy arrays of
  \<^verbatim>\<open>float64\<close>.  Scalars are modelled as \<^typ>\<open>real\<close>: rounding, overflow to
  \<^verbatim>\<open>inf\<close> and \<^verbatim>\<open>nan\<close> are outside the model.  Which operands an
  expression reads, in which order fields are assigned, which entries a loop
  visits and which exceptions are raised do not depend on rounding, and these are
  what the theorems below are about.  Where a statement of the specification is
  refuted below, the input and every intermediate value are small integers or
  halves, which \<^verbatim>\<open>float64\<close> computes exactly.
\<close>

datatype vec3 = Vec3 (vx: real) (vy: real) (vz: real)

instantiation vec3 :: ab_group_add
begin

definition zero_vec3 :: vec3 where
  "zero_vec3 = Vec3 0 0 0"

definition plus_vec3 :: "vec3 \<Rightarrow> vec3 \<Rightarrow> vec3" where
  "plus_vec3 a b = Vec3 (vx a + vx b) (vy a + vy b) (vz a + vz b)"

definition minus_vec3 :: "vec3 \<Rightarrow> vec3 \<Rightarrow> vec3" where
  "minus_vec3 a b = Vec3 (vx a - vx b) (vy a - vy b) (vz a - vz b)"

definition uminus_vec3 :: "vec3 \<Rightarrow> vec3" where
  "uminus_vec3 a = Vec3 (- vx a) (- vy a) (- vz a)"

instance
  by standard (simp_all add: zero_vec3_def plus_vec3_def minus_vec3_def uminus_vec3_def)

end

text \<open>\<^verbatim>\<open>a * v\<close> and \<^verbatim>\<open>v * a\<close> for a scalar \<open>a\<close> and an array \<open>v\<close>: componentwise.\<close>

definition smul :: "real \<Rightarrow> vec3 \<Rightarrow> vec3" where
  "smul a v = Vec3 (a * vx v) (a * vy v) (a * vz v)"

text \<open>\<^verbatim>\<open>v / a\<close>: componentwise.  numpy does not raise on a zero divisor.\<close>

definition vdiv :: "vec3 \<Rightarrow> real \<Rightarrow> vec3" where
  "vdiv v a = Vec3 (vx v / a) (vy v / a) (vz v / a)"

text \<open>\<^verbatim>\<open>np.linalg.norm\<close> of a vector.\<close>

definition linalg_norm :: "vec3 \<Rightarrow> real" where
  "linalg_norm v = sqrt (vx v * vx v + vy v * vy v + vz v * vz v)"

section \<open>Errors\<close>

text \<open>
  The exceptions the engine's statements can raise: \<open>RuntimeError\<close> is Python's
  ``dictionary changed size during iteration'', \<open>KeyError\<close> a lookup of a missing
  key, \<open>IndexError\<close> a list index out of range.
\<close>

datatype error = RuntimeError | KeyError | IndexError

section \<open>Celestial bodies\<close>

record CelestialBody =
  name :: string
  body_type :: string
  mass :: real
  radius :: real
  position :: vec3
  velocity :: vec3
  color :: "real \<times> real \<times> real"
  trail :: "vec3 list"
  max_trail_length :: nat
  orbit_calculated :: bool
  semi_major_axis :: real
  eccentricity :: real
  period :: real
  display_list :: "nat option"
  label_texture :: "nat option"
  force :: vec3
  acceleration :: vec3

text \<open>
  \<^verbatim>\<open>CelestialBody.__init__\<close> is a straight sequence of field assignments:
  \<open>new_body\<close> is the object they build, and \<open>CelestialBody_init\<close> is the
  constructor call, whose result type has room for an exception.  The source has
  no \<^verbatim>\<open>raise\<close> and no test of its arguments, so there is no error branch.
\<close>

definition new_body ::
  "string \<Rightarrow> string \<Rightarrow> real \<Rightarrow> real \<Rightarrow> vec3 \<Rightarrow> vec3 \<Rightarrow> real \<times> real \<times> real \<Rightarrow> CelestialBody" where
  "new_body nm ty m r pos vel col =
     \<lparr> name = nm, body_type = ty, mass = m, radius = r,
       position = pos, velocity = vel, color = col,
       trail = [], max_trail_length = 1000, orbit_calculated = False,
       semi_major_axis = 0, eccentricity = 0, period = 0,
       display_list = None, label_texture = None,
       force = 0, acceleration = 0 \<rparr>"

definition CelestialBody_init ::
  "string \<Rightarrow> string \<Rightarrow> real \<Rightarrow> real \<Rightarrow> vec3 \<Rightarrow> vec3 \<Rightarrow> real \<times> real \<times> real
     \<Rightarrow> error + CelestialBody" where
  "CelestialBody_init nm ty m r pos vel col = Inr (new_body nm ty m r pos vel col)"

definition update_position :: "CelestialBody \<Rightarrow> real \<Rightarrow> CelestialBody" where
  "update_position self dt =
     (let s1 = self\<lparr>position := position self + smul dt (velocity self)\<rparr>;
          s2 = s1\<lparr>trail := trail s1 @ [position s1]\<rparr>
      in if length (trail s2) > max_trail_length s2
         then s2\<lparr>trail := tl (trail s2)\<rparr>
         else s2)"

definition update_velocity :: "CelestialBody \<Rightarrow> real \<Rightarrow> CelestialBody" where
  "update_velocity self dt = self\<lparr>velocity := velocity self + smul dt (acceleration self)\<rparr>"

definition is_collision_with :: "CelestialBody \<Rightarrow> CelestialBody \<Rightarrow> bool" where
  "is_collision_with self other =
     (let distance = linalg_norm (position self - position other)
      in distance < radius self + radius other)"

text \<open>
  \<^verbatim>\<open>merge_with\<close> assigns \<open>velocity\<close>, then \<open>mass\<close>, then \<open>radius\<close>, then
  \<open>position\<close>; each right-hand side reads the fields as they are at that point
  (\<open>s1\<close>, \<open>s2\<close>, \<open>s3\<close> are \<open>self\<close> after each assignment).
\<close>

definition merge_with :: "CelestialBody \<Rightarrow> CelestialBody \<Rightarrow> CelestialBody" where
  "merge_with self other =
     (let total_mass = mass self + mass other;
          s1 = self\<lparr>velocity :=
                 vdiv (smul (mass self) (velocity self) + smul (mass other) (velocity other))
                      total_mass\<rparr>;
          s2 = s1\<lparr>mass := total_mass\<rparr>;
          total_volume = (4 / 3) * pi * (radius s2 ^ 3 + radius other ^ 3);
          s3 = s2\<lparr>radius := (total_volume * 3 / (4 * pi)) powr (1 / 3)\<rparr>
      in s3\<lparr>position :=
              vdiv (smul (mass s3) (position s3) + smul (mass other) (position other))
                   total_mass\<rparr>)"


section \<open>Dictionaries and loops\<close>

text \<open>
  A Python \<^verbatim>\<open>dict\<close> keeps its entries in insertion order, and the engine's loops
  rely on that order, so a dictionary is an association list; its keys are
  distinct, which the theorems that need it assume.  \<^verbatim>\<open>d[k]\<close> raises
  \<open>KeyError\<close> when \<open>k\<close> is missing and \<^verbatim>\<open>xs[i]\<close> raises \<open>IndexError\<close> out of
  range.
\<close>

type_synonym 'v dict = "(string \<times> 'v) list"

definition and_then :: "error + 'a \<Rightarrow> ('a \<Rightarrow> error + 'b) \<Rightarrow> error + 'b" where
  "and_then m f = (case m of Inl e \<Rightarrow> Inl e | Inr x \<Rightarrow> f x)"

definition dict_get :: "'v dict \<Rightarrow> string \<Rightarrow> error + 'v" where
  "dict_get d k = (case map_of d k of None \<Rightarrow> Inl KeyError | Some v \<Rightarrow> Inr v)"

definition list_get :: "'a list \<Rightarrow> nat \<Rightarrow> error + 'a" where
  "list_get xs i = (if i < length xs then Inr (xs ! i) else Inl IndexError)"

text \<open>\<^verbatim>\<open>d[k] += x\<close> and \<^verbatim>\<open>d[k] -= x\<close> on a dictionary of arrays.\<close>

definition dict_iadd :: "vec3 dict \<Rightarrow> string \<Rightarrow> vec3 \<Rightarrow> error + vec3 dict" where
  "dict_iadd d k x = and_then (dict_get d k) (\<lambda>v. Inr (AList.update k (v + x) d))"

definition dict_isub :: "vec3 dict \<Rightarrow> string \<Rightarrow> vec3 \<Rightarrow> error + vec3 dict" where
  "dict_isub d k x = and_then (dict_get d k) (\<lambda>v. Inr (AList.update k (v - x) d))"

text \<open>A \<^verbatim>\<open>for\<close> loop over a list that threads a state and stops at an exception.\<close>

fun for_each :: "'a list \<Rightarrow> ('a \<Rightarrow> 's \<Rightarrow> error + 's) \<Rightarrow> 's \<Rightarrow> error + 's" where
  "for_each [] f s = Inr s"
| "for_each (x # xs) f s = and_then (f x s) (for_each xs f)"

text \<open>
  A loop \<^verbatim>\<open>for key, v in d.items()\<close> whose body produces one new value per entry
  from the key and the entry alone (it assigns fields of that body, or stores
  under that key in a fresh dictionary), and may raise.
\<close>

fun for_items :: "(string \<Rightarrow> 'v \<Rightarrow> error + 'w) \<Rightarrow> 'v dict \<Rightarrow> error + 'w dict" where
  "for_items f [] = Inr []"
| "for_items f (kv # kvs) =
     and_then (f (fst kv) (snd kv)) (\<lambda>w.
     and_then (for_items f kvs) (\<lambda>r. Inr ((fst kv, w) # r)))"

text \<open>A loop \<^verbatim>\<open>for v in d.values()\<close> whose body cannot raise.\<close>

definition for_values :: "('v \<Rightarrow> 'w) \<Rightarrow> 'v dict \<Rightarrow> 'w dict" where
  "for_values f d = map (\<lambda>kv. (fst kv, f (snd kv))) d"

section \<open>The gravity engine\<close>

record GravityEngine =
  G :: real
  use_rk4 :: bool

definition GravityEngine_init :: GravityEngine where
  "GravityEngine_init = \<lparr> G = 667430 / 10 ^ 16, use_rk4 = True \<rparr>"

type_synonym bodies = "CelestialBody dict"

subsection \<open>Forces\<close>

text \<open>The body of the inner loop of \<^verbatim>\<open>calculate_gravitational_forces\<close>, for one pair.\<close>

definition pair_step ::
  "GravityEngine \<Rightarrow> CelestialBody list \<Rightarrow> string list \<Rightarrow> nat \<Rightarrow> nat \<Rightarrow> vec3 dict
     \<Rightarrow> error + vec3 dict" where
  "pair_step self body_list body_keys i j forces =
     and_then (list_get body_list i) (\<lambda>body1.
     and_then (list_get body_list j) (\<lambda>body2.
       let r_vec = position body2 - position body1;
           r = linalg_norm r_vec
       in if r = 0 then Inr forces
          else
            let force_magnitude = G self * mass body1 * mass body2 / (r * r);
                force_direction = vdiv r_vec r
            in and_then (list_get body_keys i) (\<lambda>ki.
               and_then (dict_iadd forces ki (smul force_magnitude force_direction)) (\<lambda>forces1.
               and_then (list_get body_keys j) (\<lambda>kj.
               dict_isub forces1 kj (smul force_magnitude force_direction))))))"

definition calculate_gravitational_forces :: "GravityEngine \<Rightarrow> bodies \<Rightarrow> error + vec3 dict" where
  "calculate_gravitational_forces self bodies =
     (let forces = for_values (\<lambda>b. 0) bodies;
          body_list = map snd bodies;
          body_keys = map fst bodies
      in for_each [0 ..< length body_list]
           (\<lambda>i. for_each [i + 1 ..< length body_list]
                   (\<lambda>j. pair_step self body_list body_keys i j))
           forces)"

definition update_accelerations :: "bodies \<Rightarrow> vec3 dict \<Rightarrow> error + bodies" where
  "update_accelerations bodies forces =
     for_items (\<lambda>body_key body.
        if mass body > 0
        then and_then (dict_get forces body_key)
               (\<lambda>f. Inr (body\<lparr>acceleration := vdiv f (mass body)\<rparr>))
        else Inr body) bodies"

subsection \<open>Integration\<close>

definition euler_integration :: "GravityEngine \<Rightarrow> bodies \<Rightarrow> real \<Rightarrow> error + bodies" where
  "euler_integration self bodies dt =
     and_then (calculate_gravitational_forces self bodies) (\<lambda>forces.
     and_then (update_accelerations bodies forces) (\<lambda>bodies1.
     Inr (for_values (\<lambda>body. update_position (update_velocity body dt) dt) bodies1)))"

text \<open>
  \<^verbatim>\<open>_rk4_step\<close> returns two dictionaries: the rate of change of each position
  (the body's current velocity) and of each velocity (its current acceleration).
  Its parameters \<open>dt\<close> and \<open>t\<close> are not read.
\<close>

definition rk4_step ::
  "GravityEngine \<Rightarrow> bodies \<Rightarrow> real \<Rightarrow> real \<Rightarrow> error + (vec3 dict \<times> vec3 dict)" where
  "rk4_step self bodies dt t =
     and_then (calculate_gravitational_forces self bodies) (\<lambda>forces.
     and_then (for_items (\<lambda>body_key body.
                 if mass body > 0
                 then and_then (dict_get forces body_key)
                        (\<lambda>f. Inr (velocity body, vdiv f (mass body)))
                 else Inr (velocity body, 0)) bodies) (\<lambda>rates.
     Inr (for_values fst rates, for_values snd rates)))"

text \<open>
  One of the four loops of \<^verbatim>\<open>rk4_integration\<close> that overwrite every body's
  position and velocity from the saved initial state: \<open>dpos\<close> and \<open>dvel\<close> look the
  body's rates up and give the increment, which is \<^verbatim>\<open>0.5 * k * dt\<close> (\<open>half_step\<close>),
  \<^verbatim>\<open>k * dt\<close> (\<open>full_step\<close>) or, in the last loop,
  \<^verbatim>\<open>(k1 + 2*k2 + 2*k3 + k4) * dt / 6\<close> (\<open>weighted_step\<close>).
\<close>

definition set_state ::
  "vec3 dict \<Rightarrow> vec3 dict \<Rightarrow> (string \<Rightarrow> error + vec3) \<Rightarrow> (string \<Rightarrow> error + vec3) \<Rightarrow> bodies
     \<Rightarrow> error + bodies" where
  "set_state initial_positions initial_velocities dpos dvel bodies =
     for_items (\<lambda>body_key body.
        and_then (dict_get initial_positions body_key) (\<lambda>p0.
        and_then (dpos body_key) (\<lambda>dp.
        and_then (dict_get initial_velocities body_key) (\<lambda>v0.
        and_then (dvel body_key) (\<lambda>dv.
        Inr (body\<lparr>position := p0 + dp, velocity := v0 + dv\<rparr>)))))) bodies"

definition half_step :: "vec3 dict \<Rightarrow> real \<Rightarrow> string \<Rightarrow> error + vec3" where
  "half_step k dt body_key = and_then (dict_get k body_key) (\<lambda>x. Inr (smul dt (smul (1 / 2) x)))"

definition full_step :: "vec3 dict \<Rightarrow> real \<Rightarrow> string \<Rightarrow> error + vec3" where
  "full_step k dt body_key = and_then (dict_get k body_key) (\<lambda>x. Inr (smul dt x))"

definition weighted_step ::
  "vec3 dict \<Rightarrow> vec3 dict \<Rightarrow> vec3 dict \<Rightarrow> vec3 dict \<Rightarrow> real \<Rightarrow> string \<Rightarrow> error + vec3" where
  "weighted_step k1 k2 k3 k4 dt body_key =
     and_then (dict_get k1 body_key) (\<lambda>x1.
     and_then (dict_get k2 body_key) (\<lambda>x2.
     and_then (dict_get k3 body_key) (\<lambda>x3.
     and_then (dict_get k4 body_key) (\<lambda>x4.
     Inr (vdiv (smul dt (x1 + smul 2 x2 + smul 2 x3 + x4)) 6)))))"

definition rk4_integration :: "GravityEngine \<Rightarrow> bodies \<Rightarrow> real \<Rightarrow> error + bodies" where
  "rk4_integration self bodies dt =
     (let initial_positions = for_values position bodies;
          initial_velocities = for_values velocity bodies
      in and_then (rk4_step self bodies dt 0) (\<lambda>(k1_pos, k1_vel).
         and_then (set_state initial_positions initial_velocities
                     (half_step k1_pos dt) (half_step k1_vel dt) bodies) (\<lambda>bodies1.
         and_then (rk4_step self bodies1 dt (0.5 * dt)) (\<lambda>(k2_pos, k2_vel).
         and_then (set_state initial_positions initial_velocities
                     (half_step k2_pos dt) (half_step k2_vel dt) bodies1) (\<lambda>bodies2.
         and_then (rk4_step self bodies2 dt (0.5 * dt)) (\<lambda>(k3_pos, k3_vel).
         and_then (set_state initial_positions initial_velocities
                     (full_step k3_pos dt) (full_step k3_vel dt) bodies2) (\<lambda>bodies3.
         and_then (rk4_step self bodies3 dt dt) (\<lambda>(k4_pos, k4_vel).
         set_state initial_positions initial_velocities
           (weighted_step k1_pos k2_pos k3_pos k4_pos dt)
           (weighted_step k1_vel k2_vel k3_vel k4_vel dt) bodies3))))))))"

subsection \<open>Collisions\<close>

text \<open>
  \<^verbatim>\<open>handle_collisions\<close> runs two nested \<^verbatim>\<open>for ... in enumerate(bodies)\<close> loops
  over the dictionary itself.  A dictionary iterator remembers the size the
  dictionary had when the loop began (\<open>di_used\<close>) and, each time the loop asks it
  for the next key, first compares that size with the present one: if they differ
  it raises \<open>RuntimeError\<close>, before it looks whether any key is left.  Only then
  does it yield the key at its position, or end the loop.  The loop index of
  \<^verbatim>\<open>enumerate\<close> is the iterator's position.  The engine only ever deletes, so an
  equal size means an unchanged dictionary.

  The inner loop: \<open>i\<close> and \<open>body_key_1\<close> come from the outer loop; on a collision
  the first body is merged in place, the second key is deleted, and \<^verbatim>\<open>break\<close>
  leaves the inner loop.
\<close>

function inner_loop :: "nat \<Rightarrow> string \<Rightarrow> nat \<Rightarrow> nat \<Rightarrow> bodies \<Rightarrow> error + bodies" where
  "inner_loop i body_key_1 di_used j bodies =
     (if length bodies \<noteq> di_used then Inl RuntimeError
      else if length bodies \<le> j then Inr bodies
      else
        let body_key_2 = fst (bodies ! j)
        in if i \<ge> j then inner_loop i body_key_1 di_used (j + 1) bodies
           else
             and_then (dict_get bodies body_key_1) (\<lambda>b1.
             and_then (dict_get bodies body_key_2) (\<lambda>b2.
               if is_collision_with b1 b2
               then Inr (AList.delete body_key_2
                           (AList.update body_key_1 (merge_with b1 b2) bodies))
               else inner_loop i body_key_1 di_used (j + 1) bodies)))"
  by pat_completeness auto
termination
  by (relation "measure (\<lambda>(i, k, u, j, bodies). length bodies - j)") auto

text \<open>The outer loop; its iterator lives across the deletions the inner loop makes.\<close>

function outer_loop :: "nat \<Rightarrow> nat \<Rightarrow> bodies \<Rightarrow> error + bodies" where
  "outer_loop di_used i bodies =
     (if length bodies \<noteq> di_used then Inl RuntimeError
      else if length bodies \<le> i then Inr bodies
      else
        let body_key_1 = fst (bodies ! i)
        in and_then (inner_loop i body_key_1 (length bodies) 0 bodies)
             (outer_loop di_used (i + 1)))"
  by pat_completeness auto
termination
  by (relation "measure (\<lambda>(u, i, bodies). u - i)") auto

definition handle_collisions :: "bodies \<Rightarrow> error + bodies" where
  "handle_collisions bodies = outer_loop (length bodies) 0 bodies"

definition update_positions :: "GravityEngine \<Rightarrow> bodies \<Rightarrow> real \<Rightarrow> error + bodies" where
  "update_positions self bodies dt =
     and_then (if use_rk4 self then rk4_integration self bodies dt
               else euler_integration self bodies dt)
       handle_collisions"

subsection \<open>Centre of mass and correction\<close>





section \<open>Closed forms and the specification's integrator\<close>

text \<open>
  What one pair \<open>(i, j)\<close>, \<open>i\<close> before \<open>j\<close>, contributes in the force loop: nothing when
  the two positions coincide, else the magnitude \<open>g * m_i * m_j / r\<^sup>2\<close> times the
  unit direction \<open>(pos_j - pos_i) / r\<close>.
\<close>

definition pair_force :: "real \<Rightarrow> CelestialBody \<Rightarrow> CelestialBody \<Rightarrow> vec3" where
  "pair_force g body_i body_j =
     (let r = linalg_norm (position body_j - position body_i)
      in if r = 0 then 0
         else smul (g * mass body_i * mass body_j / (r * r))
                   (vdiv (position body_j - position body_i) r))"

text \<open>
  The sum of the contributions to the body at position \<open>a\<close> of the collection:
  added for every pair in which it comes first, subtracted for every pair in
  which it comes second.
\<close>

definition net_force :: "real \<Rightarrow> CelestialBody list \<Rightarrow> nat \<Rightarrow> vec3" where
  "net_force g bl a =
     sum_list (map (\<lambda>b. pair_force g (bl ! a) (bl ! b)) [a + 1 ..< length bl])
     - sum_list (map (\<lambda>b. pair_force g (bl ! b) (bl ! a)) [0 ..< a])"

text \<open>The accumulated forces, by position, after the loop body has run for one pair.\<close>

definition pair_vals :: "real \<Rightarrow> CelestialBody list \<Rightarrow> nat \<Rightarrow> nat \<Rightarrow> vec3 list \<Rightarrow> vec3 list" where
  "pair_vals g bl i j vs =
     (let vs1 = vs[i := vs ! i + pair_force g (bl ! i) (bl ! j)]
      in vs1[j := vs1 ! j - pair_force g (bl ! i) (bl ! j)])"

text \<open>A dictionary given by its keys and the value at each position.\<close>

definition tab :: "string list \<Rightarrow> (nat \<Rightarrow> 'v) \<Rightarrow> 'v dict" where
  "tab ks f = map (\<lambda>a. (ks ! a, f a)) [0 ..< length ks]"

text \<open>What \<^verbatim>\<open>euler_integration\<close> does to one body, given the force on it.\<close>

definition euler_body :: "vec3 \<Rightarrow> real \<Rightarrow> CelestialBody \<Rightarrow> CelestialBody" where
  "euler_body f dt b =
     update_position (update_velocity
       (if mass b > 0 then b\<lparr>acceleration := vdiv f (mass b)\<rparr> else b) dt) dt"

text \<open>
  The classical fourth-order Runge--Kutta step as the specification words it.
  The state of the system is the list of the bodies' (position, velocity) pairs;
  \<open>place\<close> puts a state into the bodies, leaving every other field alone.
\<close>

type_synonym state = "(vec3 \<times> vec3) list"

definition state_of :: "CelestialBody list \<Rightarrow> state" where
  "state_of bl = map (\<lambda>b. (position b, velocity b)) bl"

definition place :: "CelestialBody list \<Rightarrow> state \<Rightarrow> CelestialBody list" where
  "place bl st = map (\<lambda>bs. (fst bs)\<lparr>position := fst (snd bs), velocity := snd (snd bs)\<rparr>) (zip bl st)"

text \<open>
  The specification's derivative function: the rate of change of a position is
  the velocity, that of a velocity is the force at the state's positions divided
  by the mass.
\<close>

definition derivative :: "real \<Rightarrow> CelestialBody list \<Rightarrow> state \<Rightarrow> state" where
  "derivative g bl st =
     (let bs = place bl st
      in map (\<lambda>a. (velocity (bs ! a), vdiv (net_force g bs a) (mass (bs ! a)))) [0 ..< length bs])"

text \<open>The rates \<^verbatim>\<open>_rk4_step\<close> computes: as \<open>derivative\<close>, but zero for a mass that is not positive.\<close>

definition rates :: "real \<Rightarrow> CelestialBody list \<Rightarrow> state \<Rightarrow> state" where
  "rates g bl st =
     (let bs = place bl st
      in map (\<lambda>a. (velocity (bs ! a),
                    if mass (bs ! a) > 0 then vdiv (net_force g bs a) (mass (bs ! a)) else 0))
             [0 ..< length bs])"

text \<open>The state \<open>st\<close> advanced by \<open>h\<close> times the rates \<open>k\<close>.\<close>

definition advance :: "state \<Rightarrow> real \<Rightarrow> state \<Rightarrow> state" where
  "advance st h k =
     map (\<lambda>sk. (fst (fst sk) + smul h (fst (snd sk)), snd (fst sk) + smul h (snd (snd sk))))
         (zip st k)"

definition weighted :: "real \<Rightarrow> vec3 \<Rightarrow> vec3 \<Rightarrow> vec3 \<Rightarrow> vec3 \<Rightarrow> vec3" where
  "weighted dt x1 x2 x3 x4 = smul (dt / 6) (x1 + smul 2 x2 + smul 2 x3 + x4)"

text \<open>
  Four stages, each started from the initial state \<open>s0\<close>: \<open>k1\<close> at \<open>s0\<close>, \<open>k2\<close> at
  \<open>s0 + dt/2 * k1\<close>, \<open>k3\<close> at \<open>s0 + dt/2 * k2\<close>, \<open>k4\<close> at \<open>s0 + dt * k3\<close>; the result is
  \<open>s0 + dt/6 * (k1 + 2 k2 + 2 k3 + k4)\<close>.
\<close>

definition rk4_scheme :: "(state \<Rightarrow> state) \<Rightarrow> real \<Rightarrow> state \<Rightarrow> state" where
  "rk4_scheme D dt s0 =
     (let k1 = D s0;
          k2 = D (advance s0 (dt / 2) k1);
          k3 = D (advance s0 (dt / 2) k2);
          k4 = D (advance s0 dt k3)
      in map (\<lambda>a. (fst (s0 ! a) + weighted dt (fst (k1 ! a)) (fst (k2 ! a)) (fst (k3 ! a)) (fst (k4 ! a)),
                    snd (s0 ! a) + weighted dt (snd (k1 ! a)) (snd (k2 ! a)) (snd (k3 ! a)) (snd (k4 ! a))))
             [0 ..< length s0])"

definition rk4_spec :: "real \<Rightarrow> real \<Rightarrow> CelestialBody list \<Rightarrow> state" where
  "rk4_spec g dt bl = rk4_scheme (derivative g bl) dt (state_of bl)"

text \<open>
  An entry with the four fields that integration may change (position, velocity,
  acceleration, trail) blanked out: two entries with the same frame have the same
  key and agree on every other field.
\<close>

definition frame :: "string \<times> CelestialBody \<Rightarrow> string \<times> CelestialBody" where
  "frame kv = (fst kv, (snd kv)\<lparr>position := 0, velocity := 0, acceleration := 0, trail := []\<rparr>)"

text \<open>The total mass of a collection, and the collection with every body moved by
  \<open>- c\<close> and slowed by \<open>- w\<close>.\<close>

definition total_mass :: "bodies \<Rightarrow> real" where
  "total_mass bodies = sum_list (map (\<lambda>kv. mass (snd kv)) bodies)"

definition shift :: "vec3 \<Rightarrow> vec3 \<Rightarrow> bodies \<Rightarrow> bodies" where
  "shift c w bodies =
     for_values (\<lambda>body. body\<lparr>position := position body - c, velocity := velocity body - w\<rparr>) bodies"

section \<open>Sample inputs\<close>

text \<open>
  Small collections on which the functions above are evaluated.  All numbers are
  small integers; the engine of the first examples has \<open>G = 8\<close> so that the force
  between \<open>sun\<close> and \<open>earth\<close> (masses \<open>2\<close> and \<open>3\<close>, distance \<open>4\<close>) is exactly \<open>3\<close>.
\<close>

definition sun :: CelestialBody where
  "sun = new_body ''sun'' ''star'' 2 1 (Vec3 0 0 0) (Vec3 0 0 0) (1, 1, 0)"

definition earth :: CelestialBody where
  "earth = new_body ''earth'' ''planet'' 3 1 (Vec3 4 0 0) (Vec3 0 1 0) (0, 0, 1)"

text \<open>The second body again, at rest.\<close>

definition earth_at_rest :: CelestialBody where
  "earth_at_rest = new_body ''earth'' ''planet'' 3 1 (Vec3 4 0 0) (Vec3 0 0 0) (0, 0, 1)"

text \<open>Two bodies of radius \<open>1\<close> at the same place: they overlap.\<close>

definition rock_a :: CelestialBody where
  "rock_a = new_body ''rock a'' ''asteroid'' 1 1 (Vec3 0 0 0) (Vec3 0 0 0) (1, 1, 1)"

definition rock_b :: CelestialBody where
  "rock_b = new_body ''rock b'' ''asteroid'' 1 1 (Vec3 0 0 0) (Vec3 0 0 0) (1, 1, 1)"

text \<open>One body alone, moving along the \<open>x\<close> axis.\<close>

definition probe :: CelestialBody where
  "probe = new_body ''probe'' ''asteroid'' 1 1 (Vec3 0 0 0) (Vec3 1 0 0) (1, 1, 1)"

section \<open>Supporting lemmas\<close>

subsection \<open>Error propagation and dictionary lookup\<close>

lemma and_then_Inr [simp]: "and_then (Inr x) f = f x"
  by (simp add: and_then_def)

lemma and_then_Inl [simp]: "and_then (Inl e) f = Inl e"
  by (simp add: and_then_def)

lemma dict_get_nth:
  "distinct (map fst d) \<Longrightarrow> i < length d \<Longrightarrow> dict_get d (fst (d ! i)) = Inr (snd (d ! i))"
proof -
  assume d: "distinct (map fst d)" and i: "i < length d"
  have "(fst (d ! i), snd (d ! i)) \<in> set d" using i by simp
  then have "map_of d (fst (d ! i)) = Some (snd (d ! i))"
    using d by (simp only: map_of_eq_Some_iff)
  then show ?thesis by (simp add: dict_get_def)
qed

subsection \<open>The force loop on association lists\<close>

lemma update_nth:
  "distinct (map fst d) \<Longrightarrow> i < length d \<Longrightarrow> AList.update (fst (d ! i)) v d = d[i := (fst (d ! i), v)]"
proof (induction d arbitrary: i)
  case Nil
  then show ?case by simp
next
  case (Cons kv d)
  show ?case
  proof (cases i)
    case 0
    then show ?thesis by (cases kv) simp
  next
    case (Suc i')
    with Cons.prems have i': "i' < length d" by simp
    then have "fst (d ! i') \<in> fst ` set d" by simp
    moreover have "fst kv \<notin> fst ` set d" using Cons.prems by simp
    ultimately have "fst (d ! i') \<noteq> fst kv" by metis
    with Cons i' Suc show ?thesis by (cases kv) auto
  qed
qed

lemma dict_iadd_zip:
  assumes "distinct ks" "length vs = length ks" "i < length ks"
  shows "dict_iadd (zip ks vs) (ks ! i) x = Inr (zip ks (vs[i := vs ! i + x]))"
proof -
  let ?d = "zip ks vs"
  have k: "map fst ?d = ks" using assms by simp
  have n: "?d ! i = (ks ! i, vs ! i)" using assms by simp
  have g: "dict_get ?d (ks ! i) = Inr (vs ! i)"
    using dict_get_nth[of ?d i] assms k n by simp
  have u: "AList.update (ks ! i) (vs ! i + x) ?d = ?d[i := (ks ! i, vs ! i + x)]"
    using update_nth[of ?d i "vs ! i + x"] assms k n by simp
  have "?d[i := (ks ! i, vs ! i + x)] = zip ks (vs[i := vs ! i + x])"
    by (simp add: update_zip)
  with g u show ?thesis by (simp add: dict_iadd_def)
qed

lemma dict_isub_zip:
  assumes "distinct ks" "length vs = length ks" "i < length ks"
  shows "dict_isub (zip ks vs) (ks ! i) x = Inr (zip ks (vs[i := vs ! i - x]))"
proof -
  let ?d = "zip ks vs"
  have k: "map fst ?d = ks" using assms by simp
  have n: "?d ! i = (ks ! i, vs ! i)" using assms by simp
  have g: "dict_get ?d (ks ! i) = Inr (vs ! i)"
    using dict_get_nth[of ?d i] assms k n by simp
  have u: "AList.update (ks ! i) (vs ! i - x) ?d = ?d[i := (ks ! i, vs ! i - x)]"
    using update_nth[of ?d i "vs ! i - x"] assms k n by simp
  have "?d[i := (ks ! i, vs ! i - x)] = zip ks (vs[i := vs ! i - x])"
    by (simp add: update_zip)
  with g u show ?thesis by (simp add: dict_isub_def)
qed

lemma pair_step_zip:
  assumes "distinct ks" "length vs = length ks" "length bl = length ks" "i < length ks" "j < length ks"
  shows "pair_step self bl ks i j (zip ks vs) = Inr (zip ks (pair_vals (G self) bl i j vs))"
proof (cases "linalg_norm (position (bl ! j) - position (bl ! i)) = 0")
  case True
  then show ?thesis using assms
    by (simp add: pair_step_def list_get_def pair_vals_def pair_force_def Let_def)
next
  case False
  then show ?thesis using assms
    by (simp add: pair_step_def list_get_def pair_vals_def pair_force_def Let_def
        dict_iadd_zip dict_isub_zip)
qed

lemma length_pair_vals [simp]: "length (pair_vals g bl i j vs) = length vs"
  by (simp add: pair_vals_def Let_def)

lemma length_fold_pair_vals [simp]: "length (fold (pair_vals g bl i) js vs) = length vs"
  by (induction js arbitrary: vs) simp_all

lemma length_fold_fold_pair_vals [simp]:
  "length (fold (\<lambda>i. fold (pair_vals g bl i) (js i)) is vs) = length vs"
  by (induction "is" arbitrary: vs) simp_all

lemma inner_for_each_zip:
  assumes "distinct ks" "length bl = length ks" "i < length ks"
  shows "length vs = length ks \<Longrightarrow> \<forall>j\<in>set js. j < length ks
    \<Longrightarrow> for_each js (\<lambda>j. pair_step self bl ks i j) (zip ks vs)
        = Inr (zip ks (fold (pair_vals (G self) bl i) js vs))"
proof (induction js arbitrary: vs)
  case Nil
  then show ?case by simp
next
  case (Cons j js)
  then show ?case using assms by (simp add: pair_step_zip)
qed

lemma outer_for_each_zip:
  assumes "distinct ks" "length bl = length ks"
  shows "length vs = length ks \<Longrightarrow> \<forall>i\<in>set is. i < length ks
    \<Longrightarrow> for_each is (\<lambda>i. for_each [i + 1 ..< length bl] (\<lambda>j. pair_step self bl ks i j)) (zip ks vs)
        = Inr (zip ks (fold (\<lambda>i. fold (pair_vals (G self) bl i) [i + 1 ..< length bl]) is vs))"
proof (induction "is" arbitrary: vs)
  case Nil
  then show ?case by simp
next
  case (Cons i "is")
  then show ?case using assms by (simp add: inner_for_each_zip)
qed

lemma pair_vals_nth:
  assumes "i \<noteq> j" "i < length vs" "j < length vs" "a < length vs"
  shows "pair_vals g bl i j vs ! a
         = vs ! a + (if a = i then pair_force g (bl ! i) (bl ! j)
                     else if a = j then - pair_force g (bl ! i) (bl ! j) else 0)"
  using assms by (simp add: pair_vals_def Let_def nth_list_update)

lemma inner_vals_nth:
  assumes "a < length vs" "i < length vs"
  shows "distinct js \<Longrightarrow> \<forall>j\<in>set js. i < j \<and> j < length vs \<Longrightarrow> length vs = n
    \<Longrightarrow> fold (pair_vals g bl i) js vs ! a
        = vs ! a + (if a = i then sum_list (map (\<lambda>j. pair_force g (bl ! i) (bl ! j)) js)
                    else if a \<in> set js then - pair_force g (bl ! i) (bl ! a) else 0)"
  using assms
proof (induction js arbitrary: vs)
  case Nil
  then show ?case by simp
next
  case (Cons j js)
  have ij: "i \<noteq> j" "j < length vs" using Cons.prems by auto
  have step: "pair_vals g bl i j vs ! a
         = vs ! a + (if a = i then pair_force g (bl ! i) (bl ! j)
                     else if a = j then - pair_force g (bl ! i) (bl ! j) else 0)"
    using pair_vals_nth[OF ij(1) Cons.prems(5) ij(2) Cons.prems(4)] .
  have ih: "fold (pair_vals g bl i) js (pair_vals g bl i j vs) ! a
        = pair_vals g bl i j vs ! a + (if a = i then sum_list (map (\<lambda>j. pair_force g (bl ! i) (bl ! j)) js)
                    else if a \<in> set js then - pair_force g (bl ! i) (bl ! a) else 0)"
    using Cons.prems by (intro Cons.IH) auto
  have "j \<notin> set js" using Cons.prems by simp
  then show ?case using step ih by (auto simp: add.assoc)
qed

lemma outer_vals_nth:
  assumes "a < n"
  shows "length vs = n \<Longrightarrow> \<forall>i\<in>set is. i < n
    \<Longrightarrow> fold (\<lambda>i. fold (pair_vals g bl i) [i + 1 ..< n]) is vs ! a
        = vs ! a + sum_list (map (\<lambda>i. if a = i then sum_list (map (\<lambda>j. pair_force g (bl ! i) (bl ! j)) [i + 1 ..< n])
                    else if i < a then - pair_force g (bl ! i) (bl ! a) else 0) is)"
proof (induction "is" arbitrary: vs)
  case Nil
  then show ?case by simp
next
  case (Cons i "is")
  let ?vs1 = "fold (pair_vals g bl i) [i + 1 ..< n] vs"
  have i: "i < n" using Cons.prems by simp
  have step: "?vs1 ! a = vs ! a + (if a = i then sum_list (map (\<lambda>j. pair_force g (bl ! i) (bl ! j)) [i + 1 ..< n])
                    else if a \<in> set [i + 1 ..< n] then - pair_force g (bl ! i) (bl ! a) else 0)"
    using assms i Cons.prems(1) by (intro inner_vals_nth[where n = n]) auto
  have ih: "fold (\<lambda>i. fold (pair_vals g bl i) [i + 1 ..< n]) is ?vs1 ! a
        = ?vs1 ! a + sum_list (map (\<lambda>i. if a = i then sum_list (map (\<lambda>j. pair_force g (bl ! i) (bl ! j)) [i + 1 ..< n])
                    else if i < a then - pair_force g (bl ! i) (bl ! a) else 0) is)"
    using Cons.prems by (intro Cons.IH) auto
  show ?case using step ih assms by (auto simp: add.assoc)
qed

lemma sum_list_uminus_vec: "sum_list (map (\<lambda>x. - f x) xs) = - sum_list (map f xs :: vec3 list)"
  by (induction xs) simp_all

lemma sum_list_zero_vec: "(\<forall>x\<in>set xs. f x = 0) \<Longrightarrow> sum_list (map f xs) = (0 :: vec3)"
  by (induction xs) simp_all

lemma net_force_sum:
  assumes "a < n"
  shows "sum_list (map (\<lambda>i. if a = i then sum_list (map (\<lambda>j. pair_force g (bl ! i) (bl ! j)) [i + 1 ..< n])
                    else if i < a then - pair_force g (bl ! i) (bl ! a) else 0) [0 ..< n])
         = sum_list (map (\<lambda>b. pair_force g (bl ! a) (bl ! b)) [a + 1 ..< n])
           - sum_list (map (\<lambda>b. pair_force g (bl ! b) (bl ! a)) [0 ..< a])"
proof -
  let ?h = "\<lambda>i. if a = i then sum_list (map (\<lambda>j. pair_force g (bl ! i) (bl ! j)) [i + 1 ..< n])
                    else if i < a then - pair_force g (bl ! i) (bl ! a) else 0"
  have split: "[0 ..< n] = [0 ..< a] @ a # [a + 1 ..< n]"
  proof -
    have "[0 ..< n] = [0 ..< a] @ [a ..< n]"
      using assms upt_add_eq_append[of 0 a "n - a"] by simp
    also have "[a ..< n] = a # [a + 1 ..< n]"
      using assms by (simp add: upt_conv_Cons)
    finally show ?thesis .
  qed
  have lo: "sum_list (map ?h [0 ..< a]) = - sum_list (map (\<lambda>b. pair_force g (bl ! b) (bl ! a)) [0 ..< a])"
  proof -
    have "map ?h [0 ..< a] = map (\<lambda>i. - pair_force g (bl ! i) (bl ! a)) [0 ..< a]"
      by (rule map_cong) auto
    then show ?thesis by (simp only: sum_list_uminus_vec)
  qed
  have hi: "sum_list (map ?h [a + 1 ..< n]) = 0"
    by (rule sum_list_zero_vec) auto
  show ?thesis
    unfolding split using lo hi by simp
qed

lemma calculate_gravitational_forces_closed:
  assumes "distinct (map fst bodies)"
  shows "calculate_gravitational_forces self bodies
         = Inr (map (\<lambda>a. (fst (bodies ! a), net_force (G self) (map snd bodies) a)) [0 ..< length bodies])"
proof -
  let ?ks = "map fst bodies" and ?bl = "map snd bodies" and ?n = "length bodies"
  let ?vs = "fold (\<lambda>i. fold (pair_vals (G self) ?bl i) [i + 1 ..< ?n]) [0 ..< ?n] (replicate ?n 0)"
  have init: "for_values (\<lambda>b. 0 :: vec3) bodies = zip ?ks (replicate ?n 0)"
    by (induction bodies) (simp_all add: for_values_def)
  have run: "calculate_gravitational_forces self bodies = Inr (zip ?ks ?vs)"
    using outer_for_each_zip[of ?ks ?bl "replicate ?n 0" "[0 ..< ?n]" self] assms
    by (simp add: calculate_gravitational_forces_def Let_def init)
  have len: "length ?vs = ?n" by simp
  have val: "?vs ! a = net_force (G self) ?bl a" if "a < ?n" for a
    using outer_vals_nth[OF that, of "replicate ?n 0" "[0 ..< ?n]" "G self" ?bl] net_force_sum[OF that, of "G self" ?bl] that
    by (simp add: net_force_def)
  have "zip ?ks ?vs = map (\<lambda>a. (fst (bodies ! a), net_force (G self) ?bl a)) [0 ..< ?n]"
    by (rule nth_equalityI) (use val in auto)
  with run show ?thesis by simp
qed

subsection \<open>Dictionaries given by position\<close>

lemma length_tab [simp]: "length (tab ks f) = length ks"
  by (simp add: tab_def)

lemma nth_tab [simp]: "a < length ks \<Longrightarrow> tab ks f ! a = (ks ! a, f a)"
  by (simp add: tab_def)

lemma keys_tab [simp]: "map fst (tab ks f) = ks"
  by (rule nth_equalityI) simp_all

lemma vals_tab: "map snd (tab ks f) = map f [0 ..< length ks]"
  by (rule nth_equalityI) simp_all

lemma tab_self: "tab (map fst d) (\<lambda>a. snd (d ! a)) = d"
  by (rule nth_equalityI) simp_all

lemma tab_cong: "(\<And>a. a < length ks \<Longrightarrow> f a = g a) \<Longrightarrow> tab ks f = tab ks g"
  by (simp add: tab_def)

lemma dict_get_tab:
  "distinct ks \<Longrightarrow> a < length ks \<Longrightarrow> dict_get (tab ks f) (ks ! a) = Inr (f a)"
  using dict_get_nth[of "tab ks f" a] by simp

lemma for_values_tab: "for_values g (tab ks f) = tab ks (\<lambda>a. g (f a))"
  by (rule nth_equalityI) (simp_all add: for_values_def)

lemma for_items_nth:
  "(\<And>a. a < length d \<Longrightarrow> F (fst (d ! a)) (snd (d ! a)) = Inr (h a))
   \<Longrightarrow> for_items F d = Inr (map (\<lambda>a. (fst (d ! a), h a)) [0 ..< length d])"
proof (induction d arbitrary: h)
  case Nil
  then show ?case by simp
next
  case (Cons kv d)
  have hd: "F (fst kv) (snd kv) = Inr (h 0)" using Cons.prems[of 0] by simp
  have "\<And>a. a < length d \<Longrightarrow> F (fst (d ! a)) (snd (d ! a)) = Inr (h (Suc a))"
  proof -
    fix a assume "a < length d"
    then show "F (fst (d ! a)) (snd (d ! a)) = Inr (h (Suc a))"
      using Cons.prems[of "Suc a"] by simp
  qed
  then have tl: "for_items F d = Inr (map (\<lambda>a. (fst (d ! a), h (Suc a))) [0 ..< length d])"
    by (rule Cons.IH[of "\<lambda>a. h (Suc a)"])
  have "[0 ..< length (kv # d)] = 0 # map Suc [0 ..< length d]"
    by (simp add: upt_conv_Cons map_Suc_upt del: upt_Suc)
  then have "map (\<lambda>a. (fst ((kv # d) ! a), h a)) [0 ..< length (kv # d)]
        = (fst kv, h 0) # map (\<lambda>a. (fst (d ! a), h (Suc a))) [0 ..< length d]"
    by (simp add: comp_def del: upt_Suc)
  with hd tl show ?case by (simp del: upt_Suc)
qed

lemma for_items_tab:
  assumes h: "\<And>a. a < length ks \<Longrightarrow> F (ks ! a) (f a) = Inr (h a)"
  shows "for_items F (tab ks f) = Inr (tab ks h)"
proof -
  have "\<And>a. a < length (tab ks f) \<Longrightarrow> F (fst (tab ks f ! a)) (snd (tab ks f ! a)) = Inr (h a)"
    using h by simp
  then have "for_items F (tab ks f)
        = Inr (map (\<lambda>a. (fst (tab ks f ! a), h a)) [0 ..< length (tab ks f)])"
    by (rule for_items_nth[of "tab ks f" F h])
  moreover have "map (\<lambda>a. (fst (tab ks f ! a), h a)) [0 ..< length (tab ks f)] = tab ks h"
    by (rule nth_equalityI) simp_all
  ultimately show ?thesis by simp
qed

lemma forces_tab:
  "distinct ks \<Longrightarrow> calculate_gravitational_forces self (tab ks f)
     = Inr (tab ks (net_force (G self) (map f [0 ..< length ks])))"
proof -
  assume d: "distinct ks"
  have "map (\<lambda>a. (fst (tab ks f ! a), net_force (G self) (map snd (tab ks f)) a)) [0 ..< length (tab ks f)]
        = tab ks (net_force (G self) (map f [0 ..< length ks]))"
    by (rule nth_equalityI) (simp_all add: vals_tab)
  then show ?thesis
    using calculate_gravitational_forces_closed[of "tab ks f" self] d by simp
qed

subsection \<open>The Euler step in closed form\<close>

lemma update_accelerations_tab:
  assumes "distinct ks"
  shows "update_accelerations (tab ks f) (tab ks fr)
     = Inr (tab ks (\<lambda>a. if mass (f a) > 0 then (f a)\<lparr>acceleration := vdiv (fr a) (mass (f a))\<rparr> else f a))"
  unfolding update_accelerations_def
  by (rule for_items_tab) (simp add: dict_get_tab assms)

lemma euler_integration_tab:
  assumes "distinct ks"
  shows "euler_integration self (tab ks f) dt
     = Inr (tab ks (\<lambda>a. euler_body (net_force (G self) (map f [0 ..< length ks]) a) dt (f a)))"
  using assms
  by (simp add: euler_integration_def forces_tab update_accelerations_tab for_values_tab euler_body_def
      cong: if_cong)

lemma euler_integration_closed:
  assumes "distinct (map fst bodies)"
  shows "euler_integration self bodies dt
     = Inr (tab (map fst bodies)
              (\<lambda>a. euler_body (net_force (G self) (map snd bodies) a) dt (snd (bodies ! a))))"
proof -
  have "map (\<lambda>a. snd (bodies ! a)) [0 ..< length bodies] = map snd bodies"
    by (rule nth_equalityI) simp_all
  then show ?thesis
    using euler_integration_tab[OF assms, of self "\<lambda>a. snd (bodies ! a)" dt]
    by (simp add: tab_self)
qed

subsection \<open>The Runge--Kutta step in closed form\<close>

lemma smul_smul: "smul a (smul b v) = smul (a * b) v"
  by (simp add: smul_def)

lemma vdiv_smul: "vdiv (smul a v) c = smul (a / c) v"
  by (simp add: smul_def vdiv_def)

lemma length_state_of [simp]: "length (state_of bl) = length bl"
  by (simp add: state_of_def)

lemma length_place [simp]: "length st = length bl \<Longrightarrow> length (place bl st) = length bl"
  by (simp add: place_def)

lemma nth_place:
  "length st = length bl \<Longrightarrow> a < length bl
   \<Longrightarrow> place bl st ! a = (bl ! a)\<lparr>position := fst (st ! a), velocity := snd (st ! a)\<rparr>"
  by (simp add: place_def)

lemma place_state_of [simp]: "place bl (state_of bl) = bl"
  by (rule nth_equalityI) (simp_all add: nth_place, simp add: state_of_def)

lemma length_rates [simp]: "length st = length bl \<Longrightarrow> length (rates g bl st) = length bl"
  by (simp add: rates_def Let_def)

lemma length_derivative [simp]: "length st = length bl \<Longrightarrow> length (derivative g bl st) = length bl"
  by (simp add: derivative_def Let_def)

lemma length_advance [simp]: "length k = length st \<Longrightarrow> length (advance st h k) = length st"
  by (simp add: advance_def)

lemma nth_advance:
  "length k = length st \<Longrightarrow> a < length st
   \<Longrightarrow> advance st h k ! a = (fst (st ! a) + smul h (fst (k ! a)), snd (st ! a) + smul h (snd (k ! a)))"
  by (simp add: advance_def)

lemma nth_rates:
  "length st = length bl \<Longrightarrow> a < length bl
   \<Longrightarrow> rates g bl st ! a
       = (snd (st ! a),
          if mass (bl ! a) > 0 then vdiv (net_force g (place bl st) a) (mass (bl ! a)) else 0)"
  by (simp add: rates_def Let_def nth_place)

lemma rates_derivative:
  assumes "length st = length bl" "\<forall>b\<in>set bl. mass b > 0"
  shows "rates g bl st = derivative g bl st"
proof -
  have "mass (place bl st ! a) > 0" if "a < length bl" for a
    using assms that by (simp add: nth_place)
  then show ?thesis using assms by (simp add: rates_def derivative_def Let_def)
qed

lemma length_rk4_scheme [simp]: "length (rk4_scheme D dt s0) = length s0"
  by (simp add: rk4_scheme_def Let_def)

lemma map_nth_upt: "map (\<lambda>a. xs ! a) [0 ..< length xs] = xs"
  by (rule nth_equalityI) simp_all

lemma zip_tab: "length xs = length ks \<Longrightarrow> zip ks xs = tab ks (\<lambda>a. xs ! a)"
  by (rule nth_equalityI) simp_all

lemma rk4_step_tab:
  assumes "distinct ks"
  shows "rk4_step self (tab ks f) dt t
         = Inr (tab ks (\<lambda>a. velocity (f a)),
                tab ks (\<lambda>a. if mass (f a) > 0
                              then vdiv (net_force (G self) (map f [0 ..< length ks]) a) (mass (f a))
                              else 0))"
proof -
  let ?nf = "net_force (G self) (map f [0 ..< length ks])"
  let ?h = "\<lambda>a. (velocity (f a), if mass (f a) > 0 then vdiv (?nf a) (mass (f a)) else 0)"
  have "for_items (\<lambda>body_key body.
                 if mass body > 0
                 then and_then (dict_get (tab ks ?nf) body_key)
                        (\<lambda>f. Inr (velocity body, vdiv f (mass body)))
                 else Inr (velocity body, 0)) (tab ks f) = Inr (tab ks ?h)"
    by (rule for_items_tab) (simp add: dict_get_tab assms)
  then show ?thesis
    using assms by (simp add: rk4_step_def forces_tab for_values_tab)
qed

lemma rk4_step_stage:
  assumes "distinct ks" "length bl = length ks" "length st = length bl"
  shows "rk4_step self (tab ks (\<lambda>a. place bl st ! a)) dt t
         = Inr (tab ks (\<lambda>a. fst (rates (G self) bl st ! a)),
                tab ks (\<lambda>a. snd (rates (G self) bl st ! a)))"
proof -
  have m: "map (\<lambda>a. place bl st ! a) [0 ..< length ks] = place bl st"
    using map_nth_upt[of "place bl st"] assms by simp
  have p: "tab ks (\<lambda>a. velocity (place bl st ! a)) = tab ks (\<lambda>a. fst (rates (G self) bl st ! a))"
    using assms by (intro tab_cong) (simp add: nth_rates nth_place)
  have v: "tab ks (\<lambda>a. if mass (place bl st ! a) > 0
                              then vdiv (net_force (G self) (place bl st) a) (mass (place bl st ! a))
                              else 0) = tab ks (\<lambda>a. snd (rates (G self) bl st ! a))"
    using assms by (intro tab_cong) (simp add: nth_rates nth_place)
  show ?thesis
    using rk4_step_tab[OF assms(1), of self "\<lambda>a. place bl st ! a" dt t]
    by (simp only: m p v)
qed

lemma set_state_tab:
  assumes "distinct ks"
    and "\<And>a. a < length ks \<Longrightarrow> dpos (ks ! a) = Inr (dp a)"
    and "\<And>a. a < length ks \<Longrightarrow> dvel (ks ! a) = Inr (dv a)"
  shows "set_state (tab ks p0) (tab ks v0) dpos dvel (tab ks f)
         = Inr (tab ks (\<lambda>a. (f a)\<lparr>position := p0 a + dp a, velocity := v0 a + dv a\<rparr>))"
  unfolding set_state_def
  by (rule for_items_tab) (simp add: dict_get_tab assms)

lemma half_step_tab:
  "distinct ks \<Longrightarrow> a < length ks \<Longrightarrow> half_step (tab ks k) dt (ks ! a) = Inr (smul dt (smul (1 / 2) (k a)))"
  by (simp add: half_step_def dict_get_tab)

lemma full_step_tab:
  "distinct ks \<Longrightarrow> a < length ks \<Longrightarrow> full_step (tab ks k) dt (ks ! a) = Inr (smul dt (k a))"
  by (simp add: full_step_def dict_get_tab)

lemma weighted_step_tab:
  "distinct ks \<Longrightarrow> a < length ks
   \<Longrightarrow> weighted_step (tab ks k1) (tab ks k2) (tab ks k3) (tab ks k4) dt (ks ! a)
       = Inr (weighted dt (k1 a) (k2 a) (k3 a) (k4 a))"
  by (simp add: weighted_step_def dict_get_tab weighted_def vdiv_smul)

lemma stage_half:
  assumes "distinct ks" "length bl = length ks" "length st = length bl" "length k = length bl"
  shows "set_state (tab ks (\<lambda>a. fst (state_of bl ! a))) (tab ks (\<lambda>a. snd (state_of bl ! a)))
           (half_step (tab ks (\<lambda>a. fst (k ! a))) dt) (half_step (tab ks (\<lambda>a. snd (k ! a))) dt)
           (tab ks (\<lambda>a. place bl st ! a))
         = Inr (tab ks (\<lambda>a. place bl (advance (state_of bl) (dt / 2) k) ! a))"
proof -
  have "tab ks (\<lambda>a. (place bl st ! a)\<lparr>position := fst (state_of bl ! a) + smul dt (smul (1 / 2) (fst (k ! a))),
                                       velocity := snd (state_of bl ! a) + smul dt (smul (1 / 2) (snd (k ! a)))\<rparr>)
        = tab ks (\<lambda>a. place bl (advance (state_of bl) (dt / 2) k) ! a)"
    using assms by (intro tab_cong) (simp add: nth_place nth_advance smul_smul)
  then show ?thesis
    using set_state_tab[OF assms(1), of "half_step (tab ks (\<lambda>a. fst (k ! a))) dt"
        "\<lambda>a. smul dt (smul (1 / 2) (fst (k ! a)))"
        "half_step (tab ks (\<lambda>a. snd (k ! a))) dt" "\<lambda>a. smul dt (smul (1 / 2) (snd (k ! a)))"
        "\<lambda>a. fst (state_of bl ! a)" "\<lambda>a. snd (state_of bl ! a)" "\<lambda>a. place bl st ! a"]
      half_step_tab[OF assms(1)]
    by simp
qed

lemma stage_full:
  assumes "distinct ks" "length bl = length ks" "length st = length bl" "length k = length bl"
  shows "set_state (tab ks (\<lambda>a. fst (state_of bl ! a))) (tab ks (\<lambda>a. snd (state_of bl ! a)))
           (full_step (tab ks (\<lambda>a. fst (k ! a))) dt) (full_step (tab ks (\<lambda>a. snd (k ! a))) dt)
           (tab ks (\<lambda>a. place bl st ! a))
         = Inr (tab ks (\<lambda>a. place bl (advance (state_of bl) dt k) ! a))"
proof -
  have "tab ks (\<lambda>a. (place bl st ! a)\<lparr>position := fst (state_of bl ! a) + smul dt (fst (k ! a)),
                                       velocity := snd (state_of bl ! a) + smul dt (snd (k ! a))\<rparr>)
        = tab ks (\<lambda>a. place bl (advance (state_of bl) dt k) ! a)"
    using assms by (intro tab_cong) (simp add: nth_place nth_advance)
  then show ?thesis
    using set_state_tab[OF assms(1), of "full_step (tab ks (\<lambda>a. fst (k ! a))) dt"
        "\<lambda>a. smul dt (fst (k ! a))"
        "full_step (tab ks (\<lambda>a. snd (k ! a))) dt" "\<lambda>a. smul dt (snd (k ! a))"
        "\<lambda>a. fst (state_of bl ! a)" "\<lambda>a. snd (state_of bl ! a)" "\<lambda>a. place bl st ! a"]
      full_step_tab[OF assms(1)]
    by simp
qed

lemma stage_final:
  assumes "distinct ks" "length bl = length ks" "length st = length bl"
    "length k1 = length bl" "length k2 = length bl" "length k3 = length bl" "length k4 = length bl"
  shows "set_state (tab ks (\<lambda>a. fst (state_of bl ! a))) (tab ks (\<lambda>a. snd (state_of bl ! a)))
           (weighted_step (tab ks (\<lambda>a. fst (k1 ! a))) (tab ks (\<lambda>a. fst (k2 ! a)))
                          (tab ks (\<lambda>a. fst (k3 ! a))) (tab ks (\<lambda>a. fst (k4 ! a))) dt)
           (weighted_step (tab ks (\<lambda>a. snd (k1 ! a))) (tab ks (\<lambda>a. snd (k2 ! a)))
                          (tab ks (\<lambda>a. snd (k3 ! a))) (tab ks (\<lambda>a. snd (k4 ! a))) dt)
           (tab ks (\<lambda>a. place bl st ! a))
         = Inr (tab ks (\<lambda>a. place bl
                  (map (\<lambda>a. (fst (state_of bl ! a)
                               + weighted dt (fst (k1 ! a)) (fst (k2 ! a)) (fst (k3 ! a)) (fst (k4 ! a)),
                              snd (state_of bl ! a)
                               + weighted dt (snd (k1 ! a)) (snd (k2 ! a)) (snd (k3 ! a)) (snd (k4 ! a))))
                       [0 ..< length (state_of bl)]) ! a))"
proof -
  let ?P = "\<lambda>a. weighted dt (fst (k1 ! a)) (fst (k2 ! a)) (fst (k3 ! a)) (fst (k4 ! a))"
  let ?V = "\<lambda>a. weighted dt (snd (k1 ! a)) (snd (k2 ! a)) (snd (k3 ! a)) (snd (k4 ! a))"
  let ?F = "map (\<lambda>a. (fst (state_of bl ! a) + ?P a, snd (state_of bl ! a) + ?V a))
                [0 ..< length (state_of bl)]"
  have "tab ks (\<lambda>a. (place bl st ! a)\<lparr>position := fst (state_of bl ! a) + ?P a,
                                       velocity := snd (state_of bl ! a) + ?V a\<rparr>)
        = tab ks (\<lambda>a. place bl ?F ! a)"
    using assms by (intro tab_cong) (simp add: nth_place)
  then show ?thesis
    using set_state_tab[OF assms(1),
        of "weighted_step (tab ks (\<lambda>a. fst (k1 ! a))) (tab ks (\<lambda>a. fst (k2 ! a)))
                          (tab ks (\<lambda>a. fst (k3 ! a))) (tab ks (\<lambda>a. fst (k4 ! a))) dt" ?P
           "weighted_step (tab ks (\<lambda>a. snd (k1 ! a))) (tab ks (\<lambda>a. snd (k2 ! a)))
                          (tab ks (\<lambda>a. snd (k3 ! a))) (tab ks (\<lambda>a. snd (k4 ! a))) dt" ?V
           "\<lambda>a. fst (state_of bl ! a)" "\<lambda>a. snd (state_of bl ! a)" "\<lambda>a. place bl st ! a"]
      weighted_step_tab[OF assms(1)]
    by simp
qed

lemma rk4_integration_closed:
  assumes d: "distinct (map fst bodies)"
  shows "rk4_integration self bodies dt
         = Inr (zip (map fst bodies)
                  (place (map snd bodies)
                     (rk4_scheme (rates (G self) (map snd bodies)) dt (state_of (map snd bodies)))))"
proof -
  define ks where "ks = map fst bodies"
  define bl where "bl = map snd bodies"
  define s0 where "s0 = state_of bl"
  define k1 where "k1 = rates (G self) bl s0"
  define s1 where "s1 = advance s0 (dt / 2) k1"
  define k2 where "k2 = rates (G self) bl s1"
  define s2 where "s2 = advance s0 (dt / 2) k2"
  define k3 where "k3 = rates (G self) bl s2"
  define s3 where "s3 = advance s0 dt k3"
  define k4 where "k4 = rates (G self) bl s3"
  define fin where "fin = map (\<lambda>a. (fst (s0 ! a) + weighted dt (fst (k1 ! a)) (fst (k2 ! a)) (fst (k3 ! a)) (fst (k4 ! a)),
                              snd (s0 ! a) + weighted dt (snd (k1 ! a)) (snd (k2 ! a)) (snd (k3 ! a)) (snd (k4 ! a))))
                       [0 ..< length s0]"
  have dk: "distinct ks" using d by (simp add: ks_def)
  have len: "length bl = length ks" by (simp add: bl_def ks_def)
  have l0: "length s0 = length bl" by (simp add: s0_def)
  have lk1: "length k1 = length bl" by (simp add: k1_def l0)
  have l1: "length s1 = length bl" by (simp add: s1_def l0 lk1)
  have lk2: "length k2 = length bl" by (simp add: k2_def l1)
  have l2: "length s2 = length bl" by (simp add: s2_def l0 lk2)
  have lk3: "length k3 = length bl" by (simp add: k3_def l2)
  have l3: "length s3 = length bl" by (simp add: s3_def l0 lk3)
  have lk4: "length k4 = length bl" by (simp add: k4_def l3)
  have lf: "length fin = length bl" by (simp add: fin_def l0)
  have b0: "bodies = tab ks (\<lambda>a. place bl s0 ! a)"
  proof -
    have "bodies = zip ks bl" by (simp add: ks_def bl_def zip_map_fst_snd)
    also have "\<dots> = tab ks (\<lambda>a. bl ! a)" using len by (rule zip_tab)
    finally show ?thesis by (simp add: s0_def)
  qed
  have ip: "for_values position bodies = tab ks (\<lambda>a. fst (state_of bl ! a))"
    by (rule nth_equalityI) (simp_all add: for_values_def ks_def bl_def state_of_def)
  have iv: "for_values velocity bodies = tab ks (\<lambda>a. snd (state_of bl ! a))"
    by (rule nth_equalityI) (simp_all add: for_values_def ks_def bl_def state_of_def)
  have r1: "rk4_step self bodies dt 0
            = Inr (tab ks (\<lambda>a. fst (k1 ! a)), tab ks (\<lambda>a. snd (k1 ! a)))"
    unfolding k1_def by (subst b0) (rule rk4_step_stage[OF dk len l0])
  have a1: "set_state (for_values position bodies) (for_values velocity bodies)
              (half_step (tab ks (\<lambda>a. fst (k1 ! a))) dt) (half_step (tab ks (\<lambda>a. snd (k1 ! a))) dt)
              bodies = Inr (tab ks (\<lambda>a. place bl s1 ! a))"
    unfolding ip iv s1_def s0_def by (subst b0) (rule stage_half[OF dk len l0 lk1])
  have r2: "rk4_step self (tab ks (\<lambda>a. place bl s1 ! a)) dt (0.5 * dt)
            = Inr (tab ks (\<lambda>a. fst (k2 ! a)), tab ks (\<lambda>a. snd (k2 ! a)))"
    unfolding k2_def by (rule rk4_step_stage[OF dk len l1])
  have a2: "set_state (for_values position bodies) (for_values velocity bodies)
              (half_step (tab ks (\<lambda>a. fst (k2 ! a))) dt) (half_step (tab ks (\<lambda>a. snd (k2 ! a))) dt)
              (tab ks (\<lambda>a. place bl s1 ! a)) = Inr (tab ks (\<lambda>a. place bl s2 ! a))"
    unfolding ip iv s2_def s0_def by (rule stage_half[OF dk len l1 lk2])
  have r3: "rk4_step self (tab ks (\<lambda>a. place bl s2 ! a)) dt (0.5 * dt)
            = Inr (tab ks (\<lambda>a. fst (k3 ! a)), tab ks (\<lambda>a. snd (k3 ! a)))"
    unfolding k3_def by (rule rk4_step_stage[OF dk len l2])
  have a3: "set_state (for_values position bodies) (for_values velocity bodies)
              (full_step (tab ks (\<lambda>a. fst (k3 ! a))) dt) (full_step (tab ks (\<lambda>a. snd (k3 ! a))) dt)
              (tab ks (\<lambda>a. place bl s2 ! a)) = Inr (tab ks (\<lambda>a. place bl s3 ! a))"
    unfolding ip iv s3_def s0_def by (rule stage_full[OF dk len l2 lk3])
  have r4: "rk4_step self (tab ks (\<lambda>a. place bl s3 ! a)) dt dt
            = Inr (tab ks (\<lambda>a. fst (k4 ! a)), tab ks (\<lambda>a. snd (k4 ! a)))"
    unfolding k4_def by (rule rk4_step_stage[OF dk len l3])
  have a4: "set_state (for_values position bodies) (for_values velocity bodies)
           (weighted_step (tab ks (\<lambda>a. fst (k1 ! a))) (tab ks (\<lambda>a. fst (k2 ! a)))
                          (tab ks (\<lambda>a. fst (k3 ! a))) (tab ks (\<lambda>a. fst (k4 ! a))) dt)
           (weighted_step (tab ks (\<lambda>a. snd (k1 ! a))) (tab ks (\<lambda>a. snd (k2 ! a)))
                          (tab ks (\<lambda>a. snd (k3 ! a))) (tab ks (\<lambda>a. snd (k4 ! a))) dt)
           (tab ks (\<lambda>a. place bl s3 ! a)) = Inr (tab ks (\<lambda>a. place bl fin ! a))"
    unfolding ip iv fin_def s0_def by (rule stage_final[OF dk len l3 lk1 lk2 lk3 lk4])
  have run: "rk4_integration self bodies dt = Inr (tab ks (\<lambda>a. place bl fin ! a))"
    unfolding rk4_integration_def Let_def
    by (simp only: r1 and_then_Inr case_prod_conv a1 r2 a2 r3 a3 r4 a4)
  have "fin = rk4_scheme (rates (G self) bl) dt s0"
    by (simp add: rk4_scheme_def Let_def fin_def k1_def k2_def k3_def k4_def s1_def s2_def s3_def)
  moreover have "tab ks (\<lambda>a. place bl fin ! a) = zip ks (place bl fin)"
    using zip_tab[of "place bl fin" ks] lf len by simp
  ultimately show ?thesis using run by (simp add: ks_def bl_def s0_def)
qed

subsection \<open>Forces, frames and trails\<close>

lemma linalg_norm_zero_iff: "linalg_norm v = 0 \<longleftrightarrow> v = 0"
proof -
  have "vx v * vx v + vy v * vy v + vz v * vz v = 0 \<longleftrightarrow> vx v = 0 \<and> vy v = 0 \<and> vz v = 0"
    by (metis add_nonneg_eq_0_iff mult_eq_0_iff zero_le_square add_nonneg_nonneg)
  then show ?thesis
    by (cases v) (simp add: linalg_norm_def zero_vec3_def)
qed

lemma forces_lookup:
  assumes "distinct (map fst bodies)" "a < length bodies"
  shows "\<exists>forces. calculate_gravitational_forces self bodies = Inr forces
           \<and> map fst forces = map fst bodies
           \<and> dict_get forces (fst (bodies ! a)) = Inr (net_force (G self) (map snd bodies) a)"
proof -
  let ?forces = "map (\<lambda>a. (fst (bodies ! a), net_force (G self) (map snd bodies) a)) [0 ..< length bodies]"
  have k: "map fst ?forces = map fst bodies"
    by (rule nth_equalityI) simp_all
  have "dict_get ?forces (fst (?forces ! a)) = Inr (snd (?forces ! a))"
    by (rule dict_get_nth) (simp_all only: k assms, simp add: assms)
  then have "dict_get ?forces (fst (bodies ! a)) = Inr (net_force (G self) (map snd bodies) a)"
    using assms by simp
  with k calculate_gravitational_forces_closed[OF assms(1), of self] show ?thesis by blast
qed

lemma sqrt16: "sqrt 16 = 4"
  using real_sqrt_abs[of 4] by simp

lemma net_force_sun_earth:
  "net_force 8 [sun, earth] 0 = Vec3 3 0 0" "net_force 8 [sun, earth] (Suc 0) = Vec3 (- 3) 0 0"
  by (simp_all add: net_force_def pair_force_def Let_def sun_def earth_def new_body_def
      linalg_norm_def smul_def vdiv_def minus_vec3_def plus_vec3_def zero_vec3_def sqrt16)

lemma euler_body_fields:
  "acceleration (euler_body f dt b) = (if mass b > 0 then vdiv f (mass b) else acceleration b)"
  "velocity (euler_body f dt b) = velocity b + smul dt (acceleration (euler_body f dt b))"
  "position (euler_body f dt b) = position b + smul dt (velocity (euler_body f dt b))"
  "frame (k, euler_body f dt b) = frame (k, b)"
  by (simp_all add: euler_body_def update_position_def update_velocity_def Let_def frame_def)

lemma frame_place:
  "length st = length bl \<Longrightarrow> length ks = length bl
   \<Longrightarrow> map frame (zip ks (place bl st)) = map frame (zip ks bl)"
  by (rule nth_equalityI) (simp_all add: frame_def nth_place)

lemma trail_place:
  "length st = length bl \<Longrightarrow> map trail (place bl st) = map trail bl"
  by (rule nth_equalityI) (simp_all add: nth_place)

lemma rk4_integration_trail:
  assumes "distinct (map fst bodies)"
  shows "\<exists>r. rk4_integration self bodies dt = Inr r
           \<and> map (\<lambda>kv. trail (snd kv)) r = map (\<lambda>kv. trail (snd kv)) bodies"
proof -
  let ?st = "rk4_scheme (rates (G self) (map snd bodies)) dt (state_of (map snd bodies))"
  let ?r = "zip (map fst bodies) (place (map snd bodies) ?st)"
  have r: "rk4_integration self bodies dt = Inr ?r"
    by (rule rk4_integration_closed[OF assms])
  have "map (\<lambda>kv. trail (snd kv)) ?r = map trail (place (map snd bodies) ?st)"
    by (rule nth_equalityI) simp_all
  also have "\<dots> = map trail (map snd bodies)"
    by (rule trail_place) simp
  finally have "map (\<lambda>kv. trail (snd kv)) ?r = map (\<lambda>kv. trail (snd kv)) bodies"
    by simp
  with r show ?thesis by blast
qed

subsection \<open>Centre of mass\<close>



lemma smul_zero_left [simp]: "smul 0 v = 0"
  by (simp add: smul_def zero_vec3_def)









lemma total_mass_shift [simp]: "total_mass (shift c w bodies) = total_mass bodies"
  by (simp add: total_mass_def shift_def for_values_def comp_def)



lemma shift_zero [simp]: "shift 0 0 bodies = bodies"
  by (simp add: shift_def for_values_def map_idI)


subsection \<open>Deleting during iteration\<close>

lemma collide_ab: "is_collision_with rock_a rock_b"
  by (simp add: is_collision_with_def rock_a_def rock_b_def new_body_def linalg_norm_def
      minus_vec3_def zero_vec3_def Let_def)

lemma length_delete_less:
  "k \<in> fst ` set d \<Longrightarrow> length (AList.delete k d) < length d"
proof -
  assume "k \<in> fst ` set d"
  then obtain kv where kv: "kv \<in> set d" "fst kv = k" by auto
  then have "length (filter (\<lambda>kv. k \<noteq> fst kv) d) < length d"
    by (intro length_filter_less[of kv]) auto
  then show ?thesis by (simp add: AList.delete_eq case_prod_unfold)
qed

lemma inner_loop_no_hit:
  assumes d: "distinct (map fst bodies)" and i: "i < length bodies"
  shows "(\<forall>j'. j \<le> j' \<and> i < j' \<and> j' < length bodies
            \<longrightarrow> \<not> is_collision_with (snd (bodies ! i)) (snd (bodies ! j')))
         \<Longrightarrow> inner_loop i (fst (bodies ! i)) (length bodies) j bodies = Inr bodies"
proof (induction "length bodies - j" arbitrary: j)
  case 0
  then show ?case by (subst inner_loop.simps) simp
next
  case (Suc m)
  have j: "j < length bodies" using Suc.hyps(2) by simp
  have rec: "inner_loop i (fst (bodies ! i)) (length bodies) (j + 1) bodies = Inr bodies"
    using Suc.hyps(2) Suc.prems by (intro Suc.hyps(1)) auto
  show ?case
  proof (cases "j \<le> i")
    case True
    then show ?thesis using j rec by (subst inner_loop.simps) simp
  next
    case False
    then have "\<not> is_collision_with (snd (bodies ! i)) (snd (bodies ! j))"
      using Suc.prems j by simp
    then show ?thesis
      using False j rec dict_get_nth[OF d i] dict_get_nth[OF d j]
      by (subst inner_loop.simps) (simp add: Let_def)
  qed
qed

lemma inner_loop_hit:
  assumes d: "distinct (map fst bodies)" and i: "i < length bodies"
    and h: "i < j'" "j' < length bodies" "is_collision_with (snd (bodies ! i)) (snd (bodies ! j'))"
  shows "j \<le> j' \<Longrightarrow> \<exists>bodies'. inner_loop i (fst (bodies ! i)) (length bodies) j bodies = Inr bodies'
                   \<and> length bodies' < length bodies"
proof (induction "j' - j" arbitrary: j)
  case 0
  then have jj: "j = j'" by simp
  have k2: "fst (bodies ! j') \<in> fst ` set (AList.update (fst (bodies ! i))
              (merge_with (snd (bodies ! i)) (snd (bodies ! j'))) bodies)"
    using h(2) by (simp add: dom_update)
  have "length (AList.delete (fst (bodies ! j')) (AList.update (fst (bodies ! i))
              (merge_with (snd (bodies ! i)) (snd (bodies ! j'))) bodies))
        < length (AList.update (fst (bodies ! i))
              (merge_with (snd (bodies ! i)) (snd (bodies ! j'))) bodies)"
    by (rule length_delete_less[OF k2])
  also have "\<dots> = length bodies"
    using update_nth[OF d i] by simp
  finally show ?case
    using jj h dict_get_nth[OF d i] dict_get_nth[OF d h(2)]
    by (subst inner_loop.simps) (simp add: Let_def)
next
  case (Suc m)
  then have lt: "j < j'" by simp
  then have j: "j < length bodies" using h(2) by simp
  have rec: "\<exists>bodies'. inner_loop i (fst (bodies ! i)) (length bodies) (j + 1) bodies = Inr bodies'
                   \<and> length bodies' < length bodies"
    using Suc.hyps(2) lt by (intro Suc.hyps(1)) auto
  show ?case
  proof (cases "j \<le> i")
    case True
    then show ?thesis using j rec by (subst inner_loop.simps) simp
  next
    case False
    show ?thesis
    proof (cases "is_collision_with (snd (bodies ! i)) (snd (bodies ! j))")
      case True
      have k2: "fst (bodies ! j) \<in> fst ` set (AList.update (fst (bodies ! i))
              (merge_with (snd (bodies ! i)) (snd (bodies ! j))) bodies)"
        using j by (simp add: dom_update)
      have "length (AList.delete (fst (bodies ! j)) (AList.update (fst (bodies ! i))
              (merge_with (snd (bodies ! i)) (snd (bodies ! j))) bodies))
        < length (AList.update (fst (bodies ! i))
              (merge_with (snd (bodies ! i)) (snd (bodies ! j))) bodies)"
        by (rule length_delete_less[OF k2])
      also have "\<dots> = length bodies"
        using update_nth[OF d i] by simp
      finally show ?thesis
        using True False j dict_get_nth[OF d i] dict_get_nth[OF d j]
        by (subst inner_loop.simps) (simp add: Let_def)
    next
      case nc: False
      then show ?thesis
        using False j rec dict_get_nth[OF d i] dict_get_nth[OF d j]
        by (subst inner_loop.simps) (simp add: Let_def)
    qed
  qed
qed

lemma outer_loop_raises:
  assumes d: "distinct (map fst bodies)"
    and h: "i < j" "j < length bodies" "is_collision_with (snd (bodies ! i)) (snd (bodies ! j))"
  shows "i0 \<le> i \<Longrightarrow> outer_loop (length bodies) i0 bodies = Inl RuntimeError"
proof (induction "i - i0" arbitrary: i0)
  case 0
  then have e: "i0 = i" by simp
  have i: "i < length bodies" using h by simp
  obtain bodies' where r: "inner_loop i (fst (bodies ! i)) (length bodies) 0 bodies = Inr bodies'"
    and l: "length bodies' < length bodies"
    using inner_loop_hit[OF d i h, of 0] by auto
  have "outer_loop (length bodies) (i + 1) bodies' = Inl RuntimeError"
    using l by (subst outer_loop.simps) simp
  then show ?case
    using e i r by (subst outer_loop.simps) (simp add: Let_def)
next
  case (Suc m)
  then have lt: "i0 < i" by simp
  then have i0: "i0 < length bodies" using h by simp
  have rec: "outer_loop (length bodies) (i0 + 1) bodies = Inl RuntimeError"
    using Suc.hyps(2) lt by (intro Suc.hyps(1)) auto
  show ?case
  proof (cases "\<exists>j'. i0 < j' \<and> j' < length bodies
                  \<and> is_collision_with (snd (bodies ! i0)) (snd (bodies ! j'))")
    case True
    then obtain j' where j': "i0 < j'" "j' < length bodies"
        "is_collision_with (snd (bodies ! i0)) (snd (bodies ! j'))" by blast
    obtain bodies' where r: "inner_loop i0 (fst (bodies ! i0)) (length bodies) 0 bodies = Inr bodies'"
      and l: "length bodies' < length bodies"
      using inner_loop_hit[OF d i0 j', of 0] by auto
    have "outer_loop (length bodies) (i0 + 1) bodies' = Inl RuntimeError"
      using l by (subst outer_loop.simps) simp
    then show ?thesis
      using i0 r by (subst outer_loop.simps) (simp add: Let_def)
  next
    case False
    then have "inner_loop i0 (fst (bodies ! i0)) (length bodies) 0 bodies = Inr bodies"
      by (intro inner_loop_no_hit[OF d i0]) auto
    then show ?thesis
      using i0 rec by (subst outer_loop.simps) (simp add: Let_def)
  qed
qed

lemma handle_collisions_raises:
  assumes "distinct (map fst bodies)"
    and "i < j" "j < length bodies" "is_collision_with (snd (bodies ! i)) (snd (bodies ! j))"
  shows "handle_collisions bodies = Inl RuntimeError"
  unfolding handle_collisions_def using outer_loop_raises[OF assms, of 0] by simp

subsection \<open>Evaluation on the sample inputs\<close>

lemmas vec_eval = smul_def vdiv_def plus_vec3_def minus_vec3_def zero_vec3_def linalg_norm_def

lemmas rk4_eval = rk4_integration_def rk4_step_def set_state_def half_step_def full_step_def
  weighted_step_def calculate_gravitational_forces_def pair_step_def for_values_def
  dict_get_def dict_iadd_def dict_isub_def list_get_def Let_def

lemma rocks_rk4:
  "rk4_integration GravityEngine_init [(''a'', rock_a), (''b'', rock_b)] 1
     = Inr [(''a'', rock_a), (''b'', rock_b)]"
  by (simp add: rk4_eval rock_a_def rock_b_def new_body_def vec_eval GravityEngine_init_def)

lemma sqrt_sq: "sqrt (729 / 64) = 27 / 8" "sqrt (121 / 16) = 11 / 4"
  using real_sqrt_abs[of "27 / 8"] real_sqrt_abs[of "11 / 4"] by (simp_all add: power2_eq_square)

lemma rk4_sun_earth_at_rest:
  "rk4_integration \<lparr>G = 8, use_rk4 = True\<rparr> [(''sun'', sun), (''earth'', earth_at_rest)] 1
   = Inr [(''sun'', sun\<lparr>position := Vec3 (1241 / 1458) 0 0,
                         velocity := Vec3 (699059 / 352836) 0 0\<rparr>),
          (''earth'', earth_at_rest\<lparr>position := Vec3 (7507 / 2187) 0 0,
                                     velocity := Vec3 (- 699059 / 529254) 0 0\<rparr>)]"
  by (simp add: rk4_eval sun_def earth_at_rest_def new_body_def vec_eval sqrt16 sqrt_sq)

lemma rocks_handle_collisions:
  "handle_collisions [(''a'', rock_a), (''b'', rock_b)] = Inl RuntimeError"
  by (simp add: handle_collisions_def dict_get_def collide_ab)

section \<open>C1: collision handling\<close>

text \<open>
  C1 on the code.  The claim is that \<^verbatim>\<open>handle_collisions\<close>, called directly or at
  the end of \<^verbatim>\<open>update_positions\<close>, returns normally whenever two valid bodies
  overlap.  On two overlapping bodies the inner loop merges and deletes, and the
  outer loop's next request for a key finds the dictionary one entry shorter:
  both calls end in \<open>RuntimeError\<close>.  (Lemma \<open>handle_collisions_raises\<close> above shows
  the same for every collection with an overlapping pair.)
\<close>

theorem collision_handling_raises:
  "handle_collisions [(''a'', rock_a), (''b'', rock_b)] = Inl RuntimeError
   \<and> update_positions GravityEngine_init [(''a'', rock_a), (''b'', rock_b)] 1 = Inl RuntimeError"
proof -
  have "use_rk4 GravityEngine_init" by (simp add: GravityEngine_init_def)
  then show ?thesis
    by (simp add: update_positions_def rocks_rk4 rocks_handle_collisions)
qed

section \<open>C2, C7: merging\<close>


text \<open>
  C7.  For two bodies with masses \<open>m1\<close>, \<open>m2\<close> and velocities \<open>v1\<close>, \<open>v2\<close>, the
  merged body's velocity is \<open>(m1 * v1 + m2 * v2) / (m1 + m2)\<close>, computed with the
  masses the bodies had before the merge, and its mass is \<open>m1 + m2\<close>.
\<close>

theorem merge_with_momentum:
  "velocity (merge_with b1 b2)
     = vdiv (smul (mass b1) (velocity b1) + smul (mass b2) (velocity b2)) (mass b1 + mass b2)
   \<and> mass (merge_with b1 b2) = mass b1 + mass b2"
  by (simp add: merge_with_def Let_def)

section \<open>C3: forces\<close>

text \<open>
  C3 (as the code has it).  For a collection with distinct keys the force
  calculator returns a force for every key, and the force of the body at position
  \<open>a\<close> is the sum of \<open>pair_force\<close> over the pairs in which it comes first minus the
  sum over the pairs in which it comes second: each pair \<open>(i, j)\<close>, \<open>i\<close> before \<open>j\<close>,
  adds its contribution to body \<open>i\<close> and subtracts the same vector from body \<open>j\<close>.
  For two bodies at distinct positions the contribution is \<open>F * direction\<close> with
  \<open>F = G * m_i * m_j / r\<^sup>2\<close> and \<open>direction = (pos_j - pos_i) / r\<close>.
\<close>

theorem forces_by_pair:
  assumes "distinct (map fst bodies)" and "a < length bodies"
  shows "\<exists>forces. calculate_gravitational_forces self bodies = Inr forces
           \<and> map fst forces = map fst bodies
           \<and> dict_get forces (fst (bodies ! a))
               = Inr (sum_list (map (\<lambda>b. pair_force (G self) (snd (bodies ! a)) (snd (bodies ! b)))
                                    [a + 1 ..< length bodies])
                      - sum_list (map (\<lambda>b. pair_force (G self) (snd (bodies ! b)) (snd (bodies ! a)))
                                      [0 ..< a]))
           \<and> (\<forall>body_i body_j. position body_i \<noteq> position body_j \<longrightarrow>
                 pair_force (G self) body_i body_j
                   = smul (G self * mass body_i * mass body_j
                             / (linalg_norm (position body_j - position body_i)
                                * linalg_norm (position body_j - position body_i)))
                          (vdiv (position body_j - position body_i)
                                (linalg_norm (position body_j - position body_i))))"
proof -
  have 1: "map (\<lambda>b. pair_force (G self) (map snd bodies ! a) (map snd bodies ! b)) [a + 1 ..< length bodies]
         = map (\<lambda>b. pair_force (G self) (snd (bodies ! a)) (snd (bodies ! b))) [a + 1 ..< length bodies]"
    using assms by simp
  have 2: "map (\<lambda>b. pair_force (G self) (map snd bodies ! b) (map snd bodies ! a)) [0 ..< a]
         = map (\<lambda>b. pair_force (G self) (snd (bodies ! b)) (snd (bodies ! a))) [0 ..< a]"
    using assms by simp
  have n: "net_force (G self) (map snd bodies) a
         = sum_list (map (\<lambda>b. pair_force (G self) (snd (bodies ! a)) (snd (bodies ! b)))
                                    [a + 1 ..< length bodies])
                      - sum_list (map (\<lambda>b. pair_force (G self) (snd (bodies ! b)) (snd (bodies ! a)))
                                      [0 ..< a])"
    by (simp only: net_force_def length_map 1 2)
  have p: "pair_force (G self) body_i body_j
                   = smul (G self * mass body_i * mass body_j
                             / (linalg_norm (position body_j - position body_i)
                                * linalg_norm (position body_j - position body_i)))
                          (vdiv (position body_j - position body_i)
                                (linalg_norm (position body_j - position body_i)))"
    if "position body_i \<noteq> position body_j" for body_i body_j
    using that by (simp add: pair_force_def Let_def linalg_norm_zero_iff)
  from forces_lookup[OF assms, of self] n p show ?thesis by auto
qed

text \<open>
  C3 as stated fails: for \<open>sun\<close> before \<open>earth\<close> the contribution \<open>F * direction\<close> is
  \<open>(3, 0, 0)\<close>; the code gives \<open>(3, 0, 0)\<close> to the first body and \<open>(-3, 0, 0)\<close> to the
  second, where the claim has it added to the second and subtracted from the first.
\<close>

theorem forces_sign_counterexample:
  "calculate_gravitational_forces \<lparr>G = 8, use_rk4 = True\<rparr> [(''sun'', sun), (''earth'', earth)]
     = Inr [(''sun'', Vec3 3 0 0), (''earth'', Vec3 (- 3) 0 0)]
   \<and> pair_force 8 sun earth = Vec3 3 0 0"
  by (simp add: calculate_gravitational_forces_def for_values_def pair_step_def list_get_def
      dict_iadd_def dict_isub_def dict_get_def pair_force_def Let_def sun_def earth_def new_body_def
      linalg_norm_def smul_def vdiv_def minus_vec3_def plus_vec3_def zero_vec3_def sqrt16)

text \<open>The theorem of C3 at the same two bodies: the second body receives \<open>(-3, 0, 0)\<close>.\<close>

theorem forces_by_pair_witness:
  "distinct (map fst [(''sun'', sun), (''earth'', earth)])
   \<and> (1 :: nat) < length [(''sun'', sun), (''earth'', earth)]
   \<and> (\<exists>forces. calculate_gravitational_forces \<lparr>G = 8, use_rk4 = True\<rparr>
                   [(''sun'', sun), (''earth'', earth)] = Inr forces
        \<and> dict_get forces ''earth'' = Inr (Vec3 (- 3) 0 0))"
proof -
  have p: "pair_force 8 sun earth = Vec3 3 0 0"
    by (simp add: pair_force_def Let_def sun_def earth_def new_body_def vec_eval sqrt16)
  show ?thesis
    using forces_by_pair[of "[(''sun'', sun), (''earth'', earth)]" 1 "\<lparr>G = 8, use_rk4 = True\<rparr>"]
    by (auto simp: numeral_2_eq_2 p vec_eval uminus_vec3_def)
qed

section \<open>C4: construction\<close>

text \<open>
  C4 (as the code has it).  Constructing a body never raises: for every mass and
  radius, also when \<open>mass \<le> 0\<close> or \<open>radius \<le> 0\<close>, the constructor returns a body
  that carries exactly the mass and the radius it was given (nothing is clamped),
  with an empty trail.
\<close>

theorem init_accepts_any_mass_radius:
  "CelestialBody_init nm ty m r pos vel col = Inr (new_body nm ty m r pos vel col)
   \<and> mass (new_body nm ty m r pos vel col) = m
   \<and> radius (new_body nm ty m r pos vel col) = r
   \<and> trail (new_body nm ty m r pos vel col) = []"
  by (simp add: CelestialBody_init_def new_body_def)

text \<open>
  C4 as stated fails: with \<open>mass = 0\<close> and \<open>radius = -1\<close> the constructor returns a
  body (it does not raise), and the body has mass \<open>0\<close> and radius \<open>-1\<close>.
\<close>

theorem init_zero_mass_not_rejected:
  "(case CelestialBody_init ''x'' ''planet'' 0 (- 1) (Vec3 0 0 0) (Vec3 0 0 0) (1, 1, 1) of
      Inl e \<Rightarrow> False
    | Inr b \<Rightarrow> mass b = 0 \<and> radius b = - 1)"
  by (simp add: CelestialBody_init_def new_body_def)

section \<open>C5, C6: the Runge--Kutta step\<close>

text \<open>
  C5 on the code.  One RK4 step of a single body that moves with velocity
  \<open>(1, 0, 0)\<close> for \<open>dt = 1\<close> puts it at \<open>(1, 0, 0)\<close> and leaves its trail empty: nothing
  is appended.  The Euler step on the same input appends the new position.
  (Lemma \<open>rk4_integration_trail\<close> above shows that no RK4 step changes any trail.)
\<close>

theorem rk4_integration_appends_no_trail:
  "rk4_integration GravityEngine_init [(''probe'', probe)] 1
     = Inr [(''probe'', probe\<lparr>position := Vec3 1 0 0\<rparr>)]
   \<and> trail (probe\<lparr>position := Vec3 1 0 0\<rparr>) = []
   \<and> euler_integration GravityEngine_init [(''probe'', probe)] 1
     = Inr [(''probe'', probe\<lparr>position := Vec3 1 0 0, trail := [Vec3 1 0 0]\<rparr>)]"
  by (simp add: rk4_eval euler_integration_def update_accelerations_def update_position_def
      update_velocity_def probe_def new_body_def vec_eval)

text \<open>
  C6.  For a collection with distinct keys and positive masses,
  \<^verbatim>\<open>rk4_integration\<close> returns the bodies with their (position, velocity) state
  replaced by the result of the specification's scheme \<open>rk4_spec\<close>: every stage
  starts from the saved initial state, advanced by \<open>dt/2 * k1\<close>, \<open>dt/2 * k2\<close> and
  \<open>dt * k3\<close>; the result is the initial state plus \<open>dt/6 * (k1 + 2 k2 + 2 k3 + k4)\<close>;
  at each stage the rate of a position is that stage's velocity and the rate of a
  velocity is that stage's force divided by the mass.
\<close>

theorem rk4_integration_refines_spec:
  assumes "distinct (map fst bodies)" and "\<forall>kv\<in>set bodies. mass (snd kv) > 0"
  shows "rk4_integration self bodies dt
         = Inr (zip (map fst bodies)
                  (place (map snd bodies) (rk4_spec (G self) dt (map snd bodies))))"
proof -
  let ?bl = "map snd bodies"
  let ?g = "G self"
  have m: "\<forall>b\<in>set ?bl. mass b > 0" using assms(2) by simp
  have rd: "rates ?g ?bl st = derivative ?g ?bl st" if "length st = length ?bl" for st
    using that m by (rule rates_derivative)
  let ?s0 = "state_of ?bl"
  have l0: "length ?s0 = length ?bl" by simp
  have k1: "rates ?g ?bl ?s0 = derivative ?g ?bl ?s0" by (rule rd) simp
  let ?k1 = "derivative ?g ?bl ?s0"
  have l1: "length (advance ?s0 (dt / 2) ?k1) = length ?bl" by simp
  let ?k2 = "derivative ?g ?bl (advance ?s0 (dt / 2) ?k1)"
  have l2: "length (advance ?s0 (dt / 2) ?k2) = length ?bl" by simp
  let ?k3 = "derivative ?g ?bl (advance ?s0 (dt / 2) ?k2)"
  have l3: "length (advance ?s0 dt ?k3) = length ?bl" by simp
  have "rk4_scheme (rates ?g ?bl) dt ?s0 = rk4_scheme (derivative ?g ?bl) dt ?s0"
    unfolding rk4_scheme_def Let_def
    by (simp only: k1 rd[OF l1] rd[OF l2] rd[OF l3])
  then show ?thesis
    using rk4_integration_closed[OF assms(1), of self dt] by (simp add: rk4_spec_def)
qed

text \<open>
  At \<open>sun\<close> and \<open>earth_at_rest\<close> with \<open>G = 8\<close> and \<open>dt = 1\<close>: the stages are evaluated at
  distances \<open>4\<close>, \<open>4\<close>, \<open>27/8\<close> and \<open>11/4\<close>, and the code and the specification's scheme
  arrive at the same positions and velocities.
\<close>

theorem rk4_integration_refines_spec_witness:
  "distinct (map fst [(''sun'', sun), (''earth'', earth_at_rest)])
   \<and> mass sun > 0 \<and> mass earth_at_rest > 0
   \<and> rk4_integration \<lparr>G = 8, use_rk4 = True\<rparr> [(''sun'', sun), (''earth'', earth_at_rest)] 1
       = Inr (zip [''sun'', ''earth''] (place [sun, earth_at_rest] (rk4_spec 8 1 [sun, earth_at_rest])))
   \<and> place [sun, earth_at_rest] (rk4_spec 8 1 [sun, earth_at_rest])
       = [sun\<lparr>position := Vec3 (1241 / 1458) 0 0, velocity := Vec3 (699059 / 352836) 0 0\<rparr>,
          earth_at_rest\<lparr>position := Vec3 (7507 / 2187) 0 0,
                         velocity := Vec3 (- 699059 / 529254) 0 0\<rparr>]"
proof -
  let ?ex = "[(''sun'', sun), (''earth'', earth_at_rest)]"
  have d: "distinct (map fst ?ex)" by simp
  have m: "\<forall>kv\<in>set ?ex. mass (snd kv) > 0"
    by (simp add: sun_def earth_at_rest_def new_body_def)
  have p: "mass sun > 0 \<and> mass earth_at_rest > 0"
    by (simp add: sun_def earth_at_rest_def new_body_def)
  have s: "rk4_integration \<lparr>G = 8, use_rk4 = True\<rparr> ?ex 1
           = Inr (zip [''sun'', ''earth''] (place [sun, earth_at_rest] (rk4_spec 8 1 [sun, earth_at_rest])))"
    using rk4_integration_refines_spec[OF d m, of "\<lparr>G = 8, use_rk4 = True\<rparr>" 1] by simp
  have "length (place [sun, earth_at_rest] (rk4_spec 8 1 [sun, earth_at_rest])) = 2"
    by (simp add: rk4_spec_def)
  then obtain x y where xy: "place [sun, earth_at_rest] (rk4_spec 8 1 [sun, earth_at_rest]) = [x, y]"
    by (metis (no_types, lifting) length_0_conv length_Suc_conv numeral_2_eq_2)
  have "place [sun, earth_at_rest] (rk4_spec 8 1 [sun, earth_at_rest])
       = [sun\<lparr>position := Vec3 (1241 / 1458) 0 0, velocity := Vec3 (699059 / 352836) 0 0\<rparr>,
          earth_at_rest\<lparr>position := Vec3 (7507 / 2187) 0 0,
                         velocity := Vec3 (- 699059 / 529254) 0 0\<rparr>]"
    using s rk4_sun_earth_at_rest by (simp add: xy)
  with d p s show ?thesis by simp
qed

section \<open>C8: the Euler step\<close>

text \<open>
  C8.  In the Euler step of a collection with distinct keys, every body gets the
  acceleration \<open>force / mass\<close> (when its mass is positive), then its velocity is
  advanced by \<open>dt\<close> times that acceleration, and then its position is advanced by
  \<open>dt\<close> times the velocity just computed, not the old one.
\<close>

theorem euler_velocity_before_position:
  assumes "distinct (map fst bodies)" and "a < length bodies"
  shows "\<exists>bodies'. euler_integration self bodies dt = Inr bodies'
           \<and> map fst bodies' = map fst bodies
           \<and> acceleration (snd (bodies' ! a))
               = (if mass (snd (bodies ! a)) > 0
                  then vdiv (net_force (G self) (map snd bodies) a) (mass (snd (bodies ! a)))
                  else acceleration (snd (bodies ! a)))
           \<and> velocity (snd (bodies' ! a))
               = velocity (snd (bodies ! a)) + smul dt (acceleration (snd (bodies' ! a)))
           \<and> position (snd (bodies' ! a))
               = position (snd (bodies ! a)) + smul dt (velocity (snd (bodies' ! a)))"
proof -
  let ?r = "tab (map fst bodies)
              (\<lambda>a. euler_body (net_force (G self) (map snd bodies) a) dt (snd (bodies ! a)))"
  have "euler_integration self bodies dt = Inr ?r"
    by (rule euler_integration_closed[OF assms(1)])
  moreover have "map fst ?r = map fst bodies" by simp
  moreover have "snd (?r ! a) = euler_body (net_force (G self) (map snd bodies) a) dt (snd (bodies ! a))"
    using assms(2) by simp
  ultimately show ?thesis
    by (intro exI[of _ ?r] conjI) (simp_all only: euler_body_fields(1,2,3))
qed

text \<open>
  At \<open>earth\<close>: acceleration \<open>(-3, 0, 0) / 3\<close>, velocity \<open>(0, 1, 0) + (-1, 0, 0)\<close>, position
  \<open>(4, 0, 0) + (-1, 1, 0)\<close>; with the old velocity the position would be \<open>(4, 1, 0)\<close>.
\<close>

theorem euler_velocity_before_position_witness:
  "distinct (map fst [(''sun'', sun), (''earth'', earth)])
   \<and> (1 :: nat) < length [(''sun'', sun), (''earth'', earth)]
   \<and> (\<exists>bodies'. euler_integration \<lparr>G = 8, use_rk4 = False\<rparr> [(''sun'', sun), (''earth'', earth)] 1
                   = Inr bodies'
        \<and> acceleration (snd (bodies' ! 1)) = Vec3 (- 1) 0 0
        \<and> velocity (snd (bodies' ! 1)) = Vec3 (- 1) 1 0
        \<and> position (snd (bodies' ! 1)) = Vec3 3 1 0)"
proof -
  have d: "distinct (map fst [(''sun'', sun), (''earth'', earth)])" by simp
  have l: "(1 :: nat) < length [(''sun'', sun), (''earth'', earth)]" by simp
  obtain bodies' where e: "euler_integration \<lparr>G = 8, use_rk4 = False\<rparr> [(''sun'', sun), (''earth'', earth)] 1
                   = Inr bodies'"
    and a: "acceleration (snd (bodies' ! 1))
               = (if mass (snd ([(''sun'', sun), (''earth'', earth)] ! 1)) > 0
                  then vdiv (net_force (G \<lparr>G = 8, use_rk4 = False\<rparr>) (map snd [(''sun'', sun), (''earth'', earth)]) 1)
                     (mass (snd ([(''sun'', sun), (''earth'', earth)] ! 1)))
                  else acceleration (snd ([(''sun'', sun), (''earth'', earth)] ! 1)))"
    and v: "velocity (snd (bodies' ! 1))
               = velocity (snd ([(''sun'', sun), (''earth'', earth)] ! 1)) + smul 1 (acceleration (snd (bodies' ! 1)))"
    and p: "position (snd (bodies' ! 1))
               = position (snd ([(''sun'', sun), (''earth'', earth)] ! 1)) + smul 1 (velocity (snd (bodies' ! 1)))"
    using euler_velocity_before_position[OF d l, of "\<lparr>G = 8, use_rk4 = False\<rparr>" 1] by blast
  have a': "acceleration (snd (bodies' ! 1)) = Vec3 (- 1) 0 0"
    using a by (simp add: net_force_sun_earth) (simp add: earth_def new_body_def vdiv_def)
  have v': "velocity (snd (bodies' ! 1)) = Vec3 (- 1) 1 0"
    using v a' by (simp add: earth_def new_body_def smul_def plus_vec3_def)
  have p': "position (snd (bodies' ! 1)) = Vec3 3 1 0"
    using p v' by (simp add: earth_def new_body_def smul_def plus_vec3_def)
  show ?thesis using d l e a' v' p' by blast
qed

section \<open>C9: recentering\<close>



section \<open>C10: what integration leaves alone\<close>

text \<open>
  C10.  For a collection with distinct keys both integration schemes return
  normally, and the result has the same keys in the same order and, for every
  body, the same name, type, mass, radius and colour; indeed every field other
  than position, velocity, acceleration and trail is as it was.
\<close>

theorem integration_preserves_frame:
  assumes "distinct (map fst bodies)"
  shows "\<exists>e r. euler_integration self bodies dt = Inr e
           \<and> rk4_integration self bodies dt = Inr r
           \<and> map frame e = map frame bodies
           \<and> map frame r = map frame bodies"
proof -
  let ?e = "tab (map fst bodies)
              (\<lambda>a. euler_body (net_force (G self) (map snd bodies) a) dt (snd (bodies ! a)))"
  let ?st = "rk4_scheme (rates (G self) (map snd bodies)) dt (state_of (map snd bodies))"
  let ?r = "zip (map fst bodies) (place (map snd bodies) ?st)"
  have e: "euler_integration self bodies dt = Inr ?e"
    by (rule euler_integration_closed[OF assms])
  have r: "rk4_integration self bodies dt = Inr ?r"
    by (rule rk4_integration_closed[OF assms])
  have fe: "map frame ?e = map frame bodies"
    by (rule nth_equalityI) (simp_all add: euler_body_fields(4))
  have "map frame ?r = map frame (zip (map fst bodies) (map snd bodies))"
    by (rule frame_place) simp_all
  then have fr: "map frame ?r = map frame bodies"
    by (simp add: zip_map_fst_snd)
  from e r fe fr show ?thesis by blast
qed

theorem integration_preserves_frame_witness:
  "distinct (map fst [(''sun'', sun), (''earth'', earth)])
   \<and> (\<exists>e r. euler_integration GravityEngine_init [(''sun'', sun), (''earth'', earth)] 1 = Inr e
           \<and> rk4_integration GravityEngine_init [(''sun'', sun), (''earth'', earth)] 1 = Inr r
           \<and> map (\<lambda>kv. (fst kv, name (snd kv), body_type (snd kv), mass (snd kv), radius (snd kv),
                          color (snd kv), max_trail_length (snd kv))) (map frame e)
               = [(''sun'', ''sun'', ''star'', 2, 1, (1, 1, 0), 1000),
                  (''earth'', ''earth'', ''planet'', 3, 1, (0, 0, 1), 1000)]
           \<and> map (\<lambda>kv. (fst kv, name (snd kv), body_type (snd kv), mass (snd kv), radius (snd kv),
                          color (snd kv), max_trail_length (snd kv))) (map frame r)
               = [(''sun'', ''sun'', ''star'', 2, 1, (1, 1, 0), 1000),
                  (''earth'', ''earth'', ''planet'', 3, 1, (0, 0, 1), 1000)])"
proof -
  let ?ex = "[(''sun'', sun), (''earth'', earth)]"
  let ?view = "\<lambda>kv :: string \<times> CelestialBody.
                 (fst kv, name (snd kv), body_type (snd kv), mass (snd kv), radius (snd kv),
                  color (snd kv), max_trail_length (snd kv))"
  have d: "distinct (map fst ?ex)" by simp
  obtain e r where e: "euler_integration GravityEngine_init ?ex 1 = Inr e"
    and r: "rk4_integration GravityEngine_init ?ex 1 = Inr r"
    and fe: "map frame e = map frame ?ex" and fr: "map frame r = map frame ?ex"
    using integration_preserves_frame[OF d, of GravityEngine_init 1] by blast
  have x: "map ?view (map frame ?ex)
           = [(''sun'', ''sun'', ''star'', 2, 1, (1, 1, 0), 1000),
              (''earth'', ''earth'', ''planet'', 3, 1, (0, 0, 1), 1000)]"
    by (simp add: frame_def sun_def earth_def new_body_def)
  have "map ?view (map frame e) = map ?view (map frame ?ex)" by (simp only: fe)
  moreover have "map ?view (map frame r) = map ?view (map frame ?ex)" by (simp only: fr)
  ultimately show ?thesis using d e r x by auto
qed

end
